theory Spec2Isabelle
  imports Main
begin

section \<open>plexsearch: the core of the command-line search client\<close>

text \<open>
  A shallow embedding of \<^verbatim>\<open>plexsearch/core.py\<close> and \<^verbatim>\<open>plexsearch/__init__.py\<close>.
  Every function of the source becomes a HOL function that returns the list of the
  effects it had (what it printed, which requests it issued), in order, together with
  its result: the returned value, or the exception it raised.

  Text is \<^typ>\<open>string\<close>; a character stands for the code point of the same number
  (0 to 255).
\<close>

subsection \<open>Data\<close>

text \<open>A Turn is the dict \<^verbatim>\<open>{"role": ..., "content": ...}\<close> of the source.\<close>

record Turn =
  role :: string
  content :: string

text \<open>The fields of \<^verbatim>\<open>args\<close> that core.py reads.\<close>

record arguments =
  api_key :: string
  model :: string
  citations :: bool
  no_stream :: bool
  query :: "string list option"

text \<open>The dict that \<^verbatim>\<open>_build_api_payload\<close> returns; \<^verbatim>\<open>payload.get("messages")\<close> is
  \<open>None\<close> when the key is absent.\<close>

record payload =
  pl_model :: string
  pl_stream :: bool
  pl_show_citations :: bool
  messages :: "Turn list option"

text \<open>The keyword arguments of one call of \<^verbatim>\<open>perform_search\<close>.\<close>

record search_call =
  sc_query :: string
  sc_api_key :: string
  sc_model :: string
  sc_stream :: bool
  sc_show_citations :: bool
  sc_context :: "Turn list option"

subsection \<open>Exceptions\<close>

text \<open>
  \<open>MarkupError\<close> is the exception of the console library for a text that is not
  well-formed markup; it derives from \<^verbatim>\<open>Exception\<close>. \<open>Exception msg\<close> is any other
  exception derived from Python's \<^verbatim>\<open>Exception\<close> (a transport failure, for instance),
  \<open>msg\<close> being its \<^verbatim>\<open>str\<close>. \<open>KeyboardInterrupt\<close> and \<open>SystemExit\<close> derive from
  \<^verbatim>\<open>BaseException\<close> only, so \<^verbatim>\<open>except Exception\<close> lets them pass.
\<close>

datatype exn =
    NameError string
  | EOFError
  | MarkupError string
  | Exception string
  | KeyboardInterrupt
  | SystemExit int

text \<open>\<^verbatim>\<open>ImportError\<close> is raised while the package is imported, before any function of
  core.py runs; it is kept apart from the exceptions that these functions meet.\<close>

datatype import_error = ImportError string

fun is_Exception :: "exn \<Rightarrow> bool" where
  "is_Exception KeyboardInterrupt = False"
| "is_Exception (SystemExit _) = False"
| "is_Exception _ = True"

text \<open>\<^verbatim>\<open>str(n)\<close> for a number \<open>n\<close> that is not negative.\<close>

fun decimal :: "nat \<Rightarrow> string" where
  "decimal n =
     (if n < 10 then [char_of (48 + n)] else decimal (n div 10) @ [char_of (48 + n mod 10)])"

declare decimal.simps [simp del]

text \<open>\<^verbatim>\<open>str(e)\<close>: the name in the message of a \<^verbatim>\<open>NameError\<close>, the fixed message of the
  \<^verbatim>\<open>EOFError\<close> of \<^verbatim>\<open>input\<close>, the message an exception was made with, nothing for
  \<^verbatim>\<open>KeyboardInterrupt\<close>, the status for \<^verbatim>\<open>SystemExit\<close>.\<close>

fun exn_str :: "exn \<Rightarrow> string" where
  "exn_str (NameError n) = ''name '' @ [CHR 0x27] @ n @ [CHR 0x27] @ '' is not defined''"
| "exn_str EOFError = ''EOF when reading a line''"
| "exn_str (MarkupError msg) = msg"
| "exn_str (Exception msg) = msg"
| "exn_str KeyboardInterrupt = []"
| "exn_str (SystemExit status) =
     (if status < 0 then CHR ''-'' # decimal (nat (- status)) else decimal (nat status))"

subsection \<open>Effects\<close>

datatype renderable = Spinner string string | Text string

text \<open>
  One event per effect on the world outside: a call of \<^verbatim>\<open>console.print\<close>,
  \<^verbatim>\<open>console.clear\<close>, \<^verbatim>\<open>console.input\<close> (its prompt), \<^verbatim>\<open>print(..., file=sys.stderr)\<close>,
  the builtin \<^verbatim>\<open>input\<close> (its prompt), entering a \<^verbatim>\<open>Live\<close> display (its renderable and
  its \<^verbatim>\<open>transient\<close> flag), \<^verbatim>\<open>live.update\<close>, leaving the \<^verbatim>\<open>Live\<close> display, a call of
  \<^verbatim>\<open>perform_search\<close>, a call of \<^verbatim>\<open>checker.update_package\<close>, and the arrival of SIGINT.
  An event of the console holds the text that the call was given, tags included, not
  what the terminal shows for it.
\<close>
datatype event =
    ConsolePrint string
  | ConsoleClear
  | ConsoleInput string
  | StderrPrint string
  | BuiltinInput string
  | LiveStart renderable bool
  | LiveUpdate string
  | LiveStop
  | SearchRequest search_call
  | UpdatePackage
  | SIGINT

text \<open>The result of a function with effects: its events, and what it returned or raised.\<close>

type_synonym 'a run = "event list \<times> (exn + 'a)"

definition ret :: "'a \<Rightarrow> 'a run" where
  "ret x = ([], Inr x)"

definition raise :: "exn \<Rightarrow> 'a run" where
  "raise e = ([], Inl e)"

definition emit :: "event list \<Rightarrow> unit run" where
  "emit evs = (evs, Inr ())"

text \<open>Sequencing: the second statement runs only when the first one returned.\<close>

definition bind :: "'a run \<Rightarrow> ('a \<Rightarrow> 'b run) \<Rightarrow> 'b run" where
  "bind m f = (case m of
       (evs, Inl e) \<Rightarrow> (evs, Inl e)
     | (evs, Inr x) \<Rightarrow> (case f x of (evs', r) \<Rightarrow> (evs @ evs', r)))"

text \<open>\<^verbatim>\<open>try: body except Exception as e: handler(e)\<close>.\<close>

definition try_except_Exception :: "'a run \<Rightarrow> (exn \<Rightarrow> 'a run) \<Rightarrow> 'a run" where
  "try_except_Exception body handler = (case body of
       (evs, Inr x) \<Rightarrow> (evs, Inr x)
     | (evs, Inl e) \<Rightarrow>
         if is_Exception e then (case handler e of (evs', r) \<Rightarrow> (evs @ evs', r))
         else (evs, Inl e))"

text \<open>\<^verbatim>\<open>with Live(renderable, refresh_per_second=10, transient=t): body\<close>: the display is
  stopped when the block is left, also by an exception, which then goes on.\<close>

definition with_Live :: "renderable \<Rightarrow> bool \<Rightarrow> 'a run \<Rightarrow> 'a run" where
  "with_Live r transient body =
     (case body of (evs, res) \<Rightarrow> (LiveStart r transient # evs @ [LiveStop], res))"

subsection \<open>What the process is given\<close>

text \<open>What a blocking call does: it returns, it raises, or SIGINT arrives while it waits.\<close>

datatype 'a outcome = Returns 'a | Raises exn | Interrupted

text \<open>The generator that \<^verbatim>\<open>perform_search\<close> returns: the fragments it yields, and how it
  ends: exhausted, by an exception, or by SIGINT while the loop waits for the next one.\<close>

datatype fragments = Yield string fragments | Exhausted | Fails exn | Interrupt

text \<open>The handler of SIGINT: Python's own, which raises \<^verbatim>\<open>KeyboardInterrupt\<close>, or
  \<^verbatim>\<open>handle_interrupt\<close>, which \<^verbatim>\<open>setup_signal_handler\<close> installs.\<close>

datatype sigint_handler = default_int_handler | handle_interrupt

text \<open>
  The names that the functions of core.py read from the module's namespace and that are
  neither builtins nor local: each is bound to a value, or not bound at all (\<open>None\<close>).
  \<open>os_environ\<close> is \<^verbatim>\<open>os.environ\<close>, present when \<^verbatim>\<open>os\<close> is bound. \<open>parse_arguments\<close> is
  what the call of that name does: it returns the arguments, it raises, or SIGINT arrives
  while it runs.
\<close>

record globals =
  os_environ :: "(string \<Rightarrow> string option) option"
  build_api_payload :: "(string \<Rightarrow> string \<Rightarrow> bool \<Rightarrow> bool \<Rightarrow> payload) option"
  perform_search :: "(search_call \<Rightarrow> fragments) option"
  parse_arguments :: "arguments outcome option"

text \<open>
  The process: the pair that \<^verbatim>\<open>shutil.get_terminal_size()\<close> returns (\<open>None\<close> when it
  raises an \<^verbatim>\<open>Exception\<close>), which the source unpacks as \<^verbatim>\<open>height, width\<close>; the handler of
  SIGINT that is installed; and two functions of the console library that are taken as
  given: \<open>style_normalize\<close> is \<^verbatim>\<open>Style.normalize\<close>, which brings the name of a tag into its
  normal form, and \<open>meta_error\<close> gives, for the parameters of a handler tag, the message of
  the \<^verbatim>\<open>MarkupError\<close> that their evaluation raises, if it raises.
\<close>

record process =
  shutil_terminal_size :: "(nat \<times> nat) option"
  on_sigint :: sigint_handler
  style_normalize :: "string \<Rightarrow> string"
  meta_error :: "string \<Rightarrow> string option"

text \<open>What \<^verbatim>\<open>main\<close> meets outside: the update checker, the answer to its question, the
  update itself, and what is typed at the prompt of the interactive loop, line by line
  (after the last line the input is at its end).\<close>

record script =
  check_and_notify :: "string option outcome"
  update_answer :: "string outcome"
  update_package :: "bool outcome"
  console_inputs :: "string outcome list"

subsection \<open>Strings\<close>

text \<open>\<^verbatim>\<open>str.isspace\<close>, \<^verbatim>\<open>str.strip()\<close> and \<^verbatim>\<open>str.lower()\<close> on the code points 0 to 255.\<close>

definition isspace :: "char \<Rightarrow> bool" where
  "isspace c = (let n = (of_char c :: nat) in
     (9 \<le> n \<and> n \<le> 13) \<or> (28 \<le> n \<and> n \<le> 32) \<or> n = 133 \<or> n = 160)"

definition strip :: "string \<Rightarrow> string" where
  "strip s = rev (dropWhile isspace (rev (dropWhile isspace s)))"

definition lower_char :: "char \<Rightarrow> char" where
  "lower_char c = (let n = (of_char c :: nat) in
     if (65 \<le> n \<and> n \<le> 90) \<or> (192 \<le> n \<and> n \<le> 222 \<and> n \<noteq> 215) then char_of (n + 32) else c)"

definition lower :: "string \<Rightarrow> string" where
  "lower s = map lower_char s"

text \<open>\<^verbatim>\<open>sep.join(xs)\<close>.\<close>

fun join :: "string \<Rightarrow> string list \<Rightarrow> string" where
  "join sep [] = []"
| "join sep [x] = x"
| "join sep (x # y # ys) = x @ sep @ join sep (y # ys)"


subsection \<open>Console markup\<close>

text \<open>
  \<^verbatim>\<open>console.print\<close> and \<^verbatim>\<open>live.update\<close> read the text they are given as markup. A tag
  is an opening bracket, a character from \<^verbatim>\<open>a\<close> to \<^verbatim>\<open>z\<close> or one of \<^verbatim>\<open>#\<close>, \<^verbatim>\<open>/\<close>, \<^verbatim>\<open>@\<close>,
  and then the shortest run without an opening bracket that a closing bracket ends; an
  odd number of backslashes right in front of it makes it plain text. A tag whose name
  starts with \<^verbatim>\<open>/\<close> closes the nearest open tag of that name, or the last open tag when
  it gives no name; when there is no such tag, \<^verbatim>\<open>MarkupError\<close> is raised. Tags that are
  still open at the end are accepted. Only what decides whether the text is accepted is
  modelled, not the styled text that comes out.
\<close>

text \<open>A tag: its name, and its parameters when the tag holds an equals sign.\<close>

type_synonym Tag = "string \<times> string option"

definition tag_start :: "char \<Rightarrow> bool" where
  "tag_start c = (let n = (of_char c :: nat) in
     (97 \<le> n \<and> n \<le> 122) \<or> n = 35 \<or> n = 47 \<or> n = 64)"

text \<open>\<^verbatim>\<open>tag_text.partition("=")\<close>.\<close>

definition tag_of :: "string \<Rightarrow> Tag" where
  "tag_of tag_text =
     (takeWhile (\<lambda>c. c \<noteq> CHR ''='') tag_text,
      if CHR ''='' \<in> set tag_text
      then Some (drop 1 (dropWhile (\<lambda>c. c \<noteq> CHR ''='') tag_text)) else None)"

text \<open>The stack of the open tags, the last one opened first. \<open>pop_style\<close> takes out the
  nearest tag of the given name.\<close>

fun pop_style :: "string \<Rightarrow> Tag list \<Rightarrow> (Tag \<times> Tag list) option" where
  "pop_style style_name [] = None"
| "pop_style style_name (t # style_stack) =
     (if fst t = style_name then Some (t, style_stack)
      else (case pop_style style_name style_stack of
              None \<Rightarrow> None
            | Some (open_tag, rest) \<Rightarrow> Some (open_tag, t # rest)))"

text \<open>What closing does with the tag it took from the stack: the parameters of a handler
  tag (its name starts with \<^verbatim>\<open>@\<close>) are evaluated.\<close>

definition close_tag :: "process \<Rightarrow> Tag \<Rightarrow> exn option" where
  "close_tag p open_tag =
     (if take 1 (fst open_tag) = ''@'' then
        (case snd open_tag of
           None \<Rightarrow> None
         | Some parameters \<Rightarrow>
             if parameters = [] then None else map_option MarkupError (meta_error p parameters))
      else None)"

text \<open>One tag, found at \<open>position\<close>: the new stack, or the error.\<close>

definition apply_tag :: "process \<Rightarrow> nat \<Rightarrow> string \<Rightarrow> Tag list \<Rightarrow> exn + Tag list" where
  "apply_tag p position tag_text style_stack =
     (if take 1 (fst (tag_of tag_text)) = ''/'' then
        (let style_name = strip (drop 1 (fst (tag_of tag_text))) in
         case (if style_name \<noteq> [] then pop_style (style_normalize p style_name) style_stack
               else (case style_stack of [] \<Rightarrow> None | t # rest \<Rightarrow> Some (t, rest))) of
           None \<Rightarrow>
             Inl (MarkupError
               (if style_name \<noteq> [] then
                  ''closing tag '['' @ tag_text @ '']' at position '' @ decimal position @
                  '' doesn't match any open tag''
                else
                  ''closing tag '[/]' at position '' @ decimal position @
                  '' has nothing to close''))
         | Some (open_tag, rest) \<Rightarrow>
             (case close_tag p open_tag of Some e \<Rightarrow> Inl e | None \<Rightarrow> Inr rest))
      else Inr ((style_normalize p (fst (tag_of tag_text)), snd (tag_of tag_text)) # style_stack))"

text \<open>
  Reading the text, one character at a time. \<open>Plain k\<close>: outside a tag, after \<open>k\<close>
  backslashes in a row. \<open>Bracket k j\<close>: right after the opening bracket at index \<open>j\<close>, which
  \<open>k\<close> backslashes precede. \<open>Inside k j tag_text t\<close>: in the tag that this bracket opened,
  with its text so far, which ends in \<open>t\<close> backslashes. An opening bracket inside a tag
  gives the tag up and may start the next one.
\<close>

datatype markup_state = Plain nat | Bracket nat nat | Inside nat nat string nat

fun scan_markup :: "process \<Rightarrow> markup_state \<Rightarrow> nat \<Rightarrow> Tag list \<Rightarrow> string \<Rightarrow> exn option" where
  "scan_markup p state i style_stack [] = None"
| "scan_markup p (Plain k) i style_stack (c # cs) =
     (if c = CHR 0x5C then scan_markup p (Plain (k + 1)) (i + 1) style_stack cs
      else if c = CHR ''['' then scan_markup p (Bracket k i) (i + 1) style_stack cs
      else scan_markup p (Plain 0) (i + 1) style_stack cs)"
| "scan_markup p (Bracket k j) i style_stack (c # cs) =
     (if tag_start c then scan_markup p (Inside k j [c] 0) (i + 1) style_stack cs
      else if c = CHR ''['' then scan_markup p (Bracket 0 i) (i + 1) style_stack cs
      else if c = CHR 0x5C then scan_markup p (Plain 1) (i + 1) style_stack cs
      else scan_markup p (Plain 0) (i + 1) style_stack cs)"
| "scan_markup p (Inside k j tag_text t) i style_stack (c # cs) =
     (if c = CHR '']'' then
        (if odd k then scan_markup p (Plain 0) (i + 1) style_stack cs
         else (case apply_tag p j tag_text style_stack of
                 Inl e \<Rightarrow> Some e
               | Inr style_stack' \<Rightarrow> scan_markup p (Plain 0) (i + 1) style_stack' cs))
      else if c = CHR ''['' then scan_markup p (Bracket t i) (i + 1) style_stack cs
      else if c = CHR 0x5C then scan_markup p (Inside k j (tag_text @ [c]) (t + 1)) (i + 1) style_stack cs
      else scan_markup p (Inside k j (tag_text @ [c]) 0) (i + 1) style_stack cs)"

text \<open>The \<^verbatim>\<open>MarkupError\<close> that rendering the text raises, if it raises.\<close>

definition markup_error :: "process \<Rightarrow> string \<Rightarrow> exn option" where
  "markup_error p markup = scan_markup p (Plain 0) 0 [] markup"

text \<open>
  \<^verbatim>\<open>console.print(text)\<close> and \<^verbatim>\<open>live.update(text)\<close> for a text that is computed when the
  program runs: the call raises when the text is not accepted. The calls with a constant
  text are written as plain events below; the markup of each constant is accepted
  (lemma \<open>constant_markup\<close>).
\<close>

definition console_print :: "process \<Rightarrow> string \<Rightarrow> unit run" where
  "console_print p markup = (case markup_error p markup of
       Some e \<Rightarrow> raise e
     | None \<Rightarrow> emit [ConsolePrint markup])"

definition live_update :: "process \<Rightarrow> string \<Rightarrow> unit run" where
  "live_update p markup = (case markup_error p markup of
       Some e \<Rightarrow> raise e
     | None \<Rightarrow> emit [LiveUpdate markup])"

subsection \<open>Signals\<close>

text \<open>
  \<^verbatim>\<open>handle_interrupt\<close> prints a line and calls \<^verbatim>\<open>sys.exit(0)\<close>, which raises
  \<^verbatim>\<open>SystemExit(0)\<close> where the main thread stands.
\<close>

definition interrupt_notice :: string where
  "interrupt_notice = ''\<newline>[yellow]Search interrupted by user[/yellow]''"

definition sigint_arrives :: "process \<Rightarrow> 'a run" where
  "sigint_arrives p = (case on_sigint p of
       default_int_handler \<Rightarrow> ([SIGINT], Inl KeyboardInterrupt)
     | handle_interrupt \<Rightarrow> ([SIGINT, ConsolePrint interrupt_notice], Inl (SystemExit 0)))"

definition setup_signal_handler :: "process \<Rightarrow> process" where
  "setup_signal_handler p = p\<lparr>on_sigint := handle_interrupt\<rparr>"

subsection \<open>The terminal\<close>

definition get_terminal_size :: "process \<Rightarrow> nat \<times> nat" where
  "get_terminal_size p = (case shutil_terminal_size p of
       Some (height, width) \<Rightarrow> (height, width)
     | None \<Rightarrow> (24, 80))"

definition clear_new_area :: "process \<Rightarrow> unit run" where
  "clear_new_area p =
     bind (emit [ConsolePrint ''[cyan]Clearing screen...[/cyan]'']) (\<lambda>_.
     let height = fst (get_terminal_size p) in
     bind (emit [ConsolePrint (replicate height CHR 0x0A)]) (\<lambda>_.
     emit [ConsoleClear]))"

subsection \<open>One search\<close>

text \<open>Reading the name \<^verbatim>\<open>perform_search\<close> and calling it.\<close>

definition call_perform_search :: "globals \<Rightarrow> search_call \<Rightarrow> fragments run" where
  "call_perform_search g c = (case perform_search g of
       None \<Rightarrow> raise (NameError ''perform_search'')
     | Some f \<Rightarrow> bind (emit [SearchRequest c]) (\<lambda>_. ret (f c)))"

text \<open>The loop of \<^verbatim>\<open>handle_no_stream_search\<close>: \<^verbatim>\<open>buffer.append(chunk)\<close>.\<close>

fun collect_chunks :: "process \<Rightarrow> fragments \<Rightarrow> string list \<Rightarrow> string list run" where
  "collect_chunks p (Yield chunk rest) buffer = collect_chunks p rest (buffer @ [chunk])"
| "collect_chunks p Exhausted buffer = ret buffer"
| "collect_chunks p (Fails e) buffer = raise e"
| "collect_chunks p Interrupt buffer = sigint_arrives p"

definition handle_no_stream_search ::
    "globals \<Rightarrow> process \<Rightarrow> string \<Rightarrow> arguments \<Rightarrow> payload \<Rightarrow> string run" where
  "handle_no_stream_search g p query' a pl =
     bind (emit [ConsolePrint ''[cyan]About to clear screen in no_stream mode...[/cyan]'']) (\<lambda>_.
     bind (clear_new_area p) (\<lambda>_.
     bind (with_Live (Spinner ''dots'' ''Searching...'') True
            (bind (call_perform_search g
                     \<lparr>sc_query = query', sc_api_key = api_key a, sc_model = model a,
                      sc_stream = False, sc_show_citations = citations a,
                      sc_context = messages pl\<rparr>)
               (\<lambda>chunks. collect_chunks p chunks []))) (\<lambda>buffer.
     let content' = concat buffer in
     bind (console_print p (''Perplexity: '' @ content')) (\<lambda>_.
     ret content'))))"

text \<open>The loop of \<^verbatim>\<open>handle_streaming_search\<close>: \<^verbatim>\<open>accumulated_text += chunk\<close>, then
  \<^verbatim>\<open>live.update\<close>.\<close>

fun update_chunks :: "process \<Rightarrow> fragments \<Rightarrow> string \<Rightarrow> string run" where
  "update_chunks p (Yield chunk rest) accumulated_text =
     bind (live_update p (''Perplexity: '' @ accumulated_text @ chunk)) (\<lambda>_.
     update_chunks p rest (accumulated_text @ chunk))"
| "update_chunks p Exhausted accumulated_text = ret accumulated_text"
| "update_chunks p (Fails e) accumulated_text = raise e"
| "update_chunks p Interrupt accumulated_text = sigint_arrives p"

definition handle_streaming_search ::
    "globals \<Rightarrow> process \<Rightarrow> string \<Rightarrow> arguments \<Rightarrow> payload \<Rightarrow> string run" where
  "handle_streaming_search g p query' a pl =
     with_Live (Text []) False
       (bind (call_perform_search g
                \<lparr>sc_query = query', sc_api_key = api_key a, sc_model = model a,
                 sc_stream = True, sc_show_citations = citations a,
                 sc_context = messages pl\<rparr>)
          (\<lambda>chunks. update_chunks p chunks []))"

text \<open>
  \<^verbatim>\<open>args.no_stream or os.environ.get("OR_APP_NAME") == "Aider"\<close>: the right operand, and
  with it the name \<^verbatim>\<open>os\<close>, is evaluated only when the left one is false.
\<close>

definition no_stream_mode :: "globals \<Rightarrow> arguments \<Rightarrow> bool run" where
  "no_stream_mode g a =
     (if no_stream a then ret True
      else case os_environ g of
             None \<Rightarrow> raise (NameError ''os'')
           | Some environ \<Rightarrow> ret (environ ''OR_APP_NAME'' = Some ''Aider''))"

text \<open>\<^verbatim>\<open>if context:\<close> holds for a list that is not empty.\<close>

fun truthy :: "Turn list option \<Rightarrow> bool" where
  "truthy None = False"
| "truthy (Some []) = False"
| "truthy (Some (_ # _)) = True"

definition handle_search ::
    "globals \<Rightarrow> process \<Rightarrow> string \<Rightarrow> arguments \<Rightarrow> Turn list option \<Rightarrow> string run" where
  "handle_search g p query' a context =
     bind (no_stream_mode g a) (\<lambda>no_stream'.
     case build_api_payload g of
       None \<Rightarrow> raise (NameError ''_build_api_payload'')
     | Some build \<Rightarrow>
         (let payload0 = build query' (model a) (\<not> no_stream') (citations a);
              pl = (if truthy context then payload0\<lparr>messages := context\<rparr> else payload0)
          in if no_stream' then handle_no_stream_search g p query' a pl
             else handle_streaming_search g p query' a pl))"

subsection \<open>The interactive loop\<close>

text \<open>
  The \<^verbatim>\<open>while True\<close> loop of \<^verbatim>\<open>handle_interactive_mode\<close>, by recursion on what is typed.
  It returns its events, the context as the loop leaves it, and how the loop ended.
  At the end of the input \<^verbatim>\<open>console.input\<close> raises \<^verbatim>\<open>EOFError\<close>.
\<close>

definition prepend :: "event list \<Rightarrow> event list \<times> 'c \<times> 'r \<Rightarrow> event list \<times> 'c \<times> 'r" where
  "prepend evs res = (case res of (evs', c, r) \<Rightarrow> (evs @ evs', c, r))"

definition prompt :: string where
  "prompt = ''\<newline>[cyan]> [/cyan]''"

definition error_line :: "exn \<Rightarrow> string" where
  "error_line e = ''[red]Error:[/red] '' @ exn_str e"

fun interactive_loop ::
    "globals \<Rightarrow> process \<Rightarrow> arguments \<Rightarrow> Turn list \<Rightarrow> string outcome list \<Rightarrow>
     event list \<times> Turn list \<times> (exn + unit)" where
  "interactive_loop g p a context [] = ([ConsoleInput prompt], context, Inl EOFError)"
| "interactive_loop g p a context (Raises e # rest) = ([ConsoleInput prompt], context, Inl e)"
| "interactive_loop g p a context (Interrupted # rest) =
     (ConsoleInput prompt # fst (sigint_arrives p :: unit run), context,
      snd (sigint_arrives p :: unit run))"
| "interactive_loop g p a context (Returns user_input # rest) =
     (if strip user_input = [] then
        prepend [ConsoleInput prompt,
                 ConsolePrint ''[yellow]Please enter a query or type 'exit' to quit.[/yellow]'']
          (interactive_loop g p a context rest)
      else if lower user_input = ''exit'' then
        ([ConsoleInput prompt, ConsolePrint ''[yellow]Exiting interactive mode.[/yellow]''],
         context, Inr ())
      else
        (let context1 = context @ [\<lparr>role = ''user'', content = user_input\<rparr>] in
         (case handle_search g p user_input a (Some context1) of
            (evs, Inr content') \<Rightarrow>
              prepend (ConsoleInput prompt # fst (clear_new_area p) @ evs)
                (interactive_loop g p a
                   (context1 @ [\<lparr>role = ''assistant'', content = content'\<rparr>]) rest)
          | (evs, Inl e) \<Rightarrow>
              (if is_Exception e then
                 (case console_print p (error_line e) of
                    (evs', Inr _) \<Rightarrow>
                      prepend (ConsoleInput prompt # fst (clear_new_area p) @ evs @ evs' @
                               [StderrPrint (error_line e)])
                        (interactive_loop g p a context1 rest)
                  | (evs', Inl e') \<Rightarrow>
                      (ConsoleInput prompt # fst (clear_new_area p) @ evs @ evs', context1,
                       Inl e'))
               else (ConsoleInput prompt # fst (clear_new_area p) @ evs, context1, Inl e)))))"

definition handle_interactive_mode ::
    "globals \<Rightarrow> process \<Rightarrow> arguments \<Rightarrow> Turn list option \<Rightarrow> string outcome list \<Rightarrow>
     event list \<times> Turn list \<times> (exn + unit)" where
  "handle_interactive_mode g p a context typed =
     prepend
       [ConsolePrint
          ''[green]Entering interactive mode. Type your queries below. Type 'exit' to quit.[/green]'']
       (interactive_loop g p a (case context of None \<Rightarrow> [] | Some c \<Rightarrow> c) typed)"

subsection \<open>The entry point\<close>

text \<open>A call that blocks, after the events \<open>evs\<close> that start it.\<close>

definition blocking :: "process \<Rightarrow> event list \<Rightarrow> 'a outcome \<Rightarrow> 'a run" where
  "blocking p evs result = (case result of
       Returns x \<Rightarrow> (evs, Inr x)
     | Raises e \<Rightarrow> (evs, Inl e)
     | Interrupted \<Rightarrow> bind (emit evs) (\<lambda>_. sigint_arrives p))"

text \<open>The update check of \<^verbatim>\<open>main\<close>. \<^verbatim>\<open>if latest_version := ...\<close> holds for a string that
  is not empty.\<close>

definition version_notice :: "string \<Rightarrow> string" where
  "version_notice latest_version =
     ''\<newline>[yellow]New version '' @ latest_version @ '' available![/yellow]\<newline>''"

definition update_question :: string where
  "update_question = ''Would you like to update now? (Y/n): ''"

definition check_for_updates :: "process \<Rightarrow> script \<Rightarrow> unit run" where
  "check_for_updates p s =
     bind (blocking p [] (check_and_notify s)) (\<lambda>latest_version.
     case latest_version of
       None \<Rightarrow> ret ()
     | Some v \<Rightarrow>
         (if v = [] then ret ()
          else
            bind (console_print p (version_notice v)) (\<lambda>_.
            bind (blocking p [BuiltinInput update_question] (update_answer s)) (\<lambda>answer.
            let response = lower (strip answer) in
            if response = [] \<or> response = ''y'' \<or> response = ''yes'' then
              bind (try_except_Exception
                      (bind (blocking p [UpdatePackage] (update_package s)) (\<lambda>updated.
                         if updated then
                           emit [ConsolePrint
                             ''[green]Successfully updated to the new version! The new version will be used on next execution.[/green]'']
                         else
                           emit [ConsolePrint
                             ''[red]Update failed. Please try updating manually with: pip install --upgrade plexsearch[/red]'']))
                      (\<lambda>e. console_print p (''[red]Update failed: '' @ exn_str e @ ''[/red]'')))
                (\<lambda>_. emit [ConsolePrint []])
            else ret ()))))"

text \<open>\<^verbatim>\<open>" ".join(args.query) if args.query else None\<close>.\<close>

fun query_of :: "arguments \<Rightarrow> string option" where
  "query_of a = (case query a of
       None \<Rightarrow> None
     | Some [] \<Rightarrow> None
     | Some (w # ws) \<Rightarrow> Some (join '' '' (w # ws)))"

text \<open>\<^verbatim>\<open>main\<close>. The handler of SIGINT is installed once \<^verbatim>\<open>parse_arguments\<close> has returned;
  until then the handler that the process came with is in place.\<close>

definition main :: "globals \<Rightarrow> process \<Rightarrow> script \<Rightarrow> unit run" where
  "main g p s =
     try_except_Exception
       (case parse_arguments g of
          None \<Rightarrow> raise (NameError ''parse_arguments'')
        | Some parsed \<Rightarrow>
            bind (blocking p [] parsed) (\<lambda>a.
            let p' = setup_signal_handler p in
            bind (check_for_updates p' s) (\<lambda>_.
            case query_of a of
              None \<Rightarrow>
                (case handle_interactive_mode g p' a None (console_inputs s) of
                   (evs, _, r) \<Rightarrow> (evs, r))
            | Some query' \<Rightarrow>
                bind (clear_new_area p') (\<lambda>_.
                bind (handle_search g p' query' a None) (\<lambda>_. ret ())))))
       (\<lambda>e. bind (console_print p (error_line e)) (\<lambda>_.
            bind (emit [StderrPrint (error_line e)]) (\<lambda>_.
            raise (SystemExit 1))))"

subsection \<open>The module as it is written\<close>

text \<open>The names that core.py binds at module level: its imports, \<^verbatim>\<open>console\<close>, and its
  functions.\<close>

definition core_module_names :: "string list" where
  "core_module_names =
     [''sys'', ''signal'', ''Optional'', ''List'', ''Dict'', ''Console'', ''Live'', ''Spinner'',
      ''__version__'', ''UpdateChecker'', ''PerplexityAPI'', ''Config'', ''ConversationContext'',
      ''console'', ''get_terminal_size'', ''clear_new_area'', ''handle_no_stream_search'',
      ''handle_streaming_search'', ''handle_search'', ''handle_interactive_mode'',
      ''setup_signal_handler'', ''main'']"

text \<open>A name is bound to what \<open>g\<close> holds for it only if the module binds the name.\<close>

definition bound_in :: "string list \<Rightarrow> string \<Rightarrow> 'a option \<Rightarrow> 'a option" where
  "bound_in names n v = (if n \<in> set names then v else None)"

definition core_globals :: "globals \<Rightarrow> globals" where
  "core_globals g =
     \<lparr>os_environ = bound_in core_module_names ''os'' (os_environ g),
      build_api_payload = bound_in core_module_names ''_build_api_payload'' (build_api_payload g),
      perform_search = bound_in core_module_names ''perform_search'' (perform_search g),
      parse_arguments = bound_in core_module_names ''parse_arguments'' (parse_arguments g)\<rparr>"

text \<open>\<^verbatim>\<open>from module import n1, n2, ...\<close>: the first name that the module does not bind
  raises \<^verbatim>\<open>ImportError\<close>.\<close>

definition import_from :: "string list \<Rightarrow> string list \<Rightarrow> import_error + unit" where
  "import_from names wanted = (case filter (\<lambda>n. n \<notin> set names) wanted of
       [] \<Rightarrow> Inr ()
     | n # _ \<Rightarrow> Inl (ImportError n))"

text \<open>\<^verbatim>\<open>plexsearch/__init__.py\<close>: \<^verbatim>\<open>from .core import perform_search, main\<close>.\<close>

definition plexsearch_init :: "import_error + unit" where
  "plexsearch_init = import_from core_module_names [''perform_search'', ''main'']"

subsection \<open>Fragments\<close>

text \<open>A generator that yields the fragments \<open>fs\<close> and ends as \<open>ending\<close> says.\<close>

definition yields :: "string list \<Rightarrow> fragments \<Rightarrow> fragments" where
  "yields fs ending = foldr Yield fs ending"

text \<open>The texts that the streaming loop passes to \<^verbatim>\<open>live.update\<close> for the fragments \<open>fs\<close>
  when it has \<open>accumulated_text\<close> already: one for each fragment, each longer by that
  fragment.\<close>

fun update_texts :: "string \<Rightarrow> string list \<Rightarrow> string list" where
  "update_texts accumulated_text [] = []"
| "update_texts accumulated_text (f # fs) =
     (''Perplexity: '' @ accumulated_text @ f) # update_texts (accumulated_text @ f) fs"

subsection \<open>The transcript\<close>

text \<open>
  Modelled from the spec: \<^verbatim>\<open>_format_message_to_markdown\<close> is not in the source, only its
  test is. The spec gives the block of a Turn as
  \<^verbatim>\<open>**<Role capitalized>**: <content>\n\n\<close>. Capitalized is read as Python's
  \<^verbatim>\<open>str.capitalize\<close>: the first character in upper case (here for the letters a to z),
  the others in lower case.
\<close>

definition upper_char :: "char \<Rightarrow> char" where
  "upper_char c = (let n = (of_char c :: nat) in
     if 97 \<le> n \<and> n \<le> 122 then char_of (n - 32) else c)"

definition capitalize :: "string \<Rightarrow> string" where
  "capitalize s = (case s of [] \<Rightarrow> [] | c # cs \<Rightarrow> upper_char c # lower cs)"

definition format_message_to_markdown :: "Turn \<Rightarrow> string" where
  "format_message_to_markdown message =
     ''**'' @ capitalize (role message) @ ''**: '' @ content message @ ''\<newline>\<newline>''"

subsection \<open>The log\<close>

text \<open>
  Modelled from the spec: \<^verbatim>\<open>log_conversation\<close> is not in the source, only its test is.
  The spec has one JSON-serialized Turn object per line, appended to the file. The
  serialization is that of Python's \<^verbatim>\<open>json.dumps\<close> with its defaults: the keys in the
  order of the dict, \<^verbatim>\<open>", "\<close> and \<^verbatim>\<open>": "\<close> as separators, and in a string every character
  outside the printable ASCII range, the quote and the backslash escaped.
\<close>

definition hex_digit :: "nat \<Rightarrow> char" where
  "hex_digit n = char_of (if n < 10 then 48 + n else 87 + n)"

definition json_escape :: "char \<Rightarrow> string" where
  "json_escape c = (let n = (of_char c :: nat) in
     if n = 34 then [CHR 0x5C, CHR 0x22]
     else if n = 92 then [CHR 0x5C, CHR 0x5C]
     else if n = 10 then [CHR 0x5C, CHR ''n'']
     else if n = 13 then [CHR 0x5C, CHR ''r'']
     else if n = 9 then [CHR 0x5C, CHR ''t'']
     else if n = 8 then [CHR 0x5C, CHR ''b'']
     else if n = 12 then [CHR 0x5C, CHR ''f'']
     else if 32 \<le> n \<and> n \<le> 126 then [c]
     else [CHR 0x5C, CHR ''u'', CHR ''0'', CHR ''0'', hex_digit (n div 16), hex_digit (n mod 16)])"

definition json_string :: "string \<Rightarrow> string" where
  "json_string s = CHR 0x22 # concat (map json_escape s) @ [CHR 0x22]"

definition json_dumps :: "Turn \<Rightarrow> string" where
  "json_dumps message =
     ''{'' @ json_string ''role'' @ '': '' @ json_string (role message) @ '', '' @
     json_string ''content'' @ '': '' @ json_string (content message) @ ''}''"

text \<open>Modelled from the spec: the file is opened in append mode, so what it held stays in
  front.\<close>

definition log_conversation :: "string \<Rightarrow> Turn list \<Rightarrow> string" where
  "log_conversation file turns = file @ concat (map (\<lambda>m. json_dumps m @ [CHR 0x0A]) turns)"

text \<open>
  Modelled from the spec: reading the log back is the test's
  \<^verbatim>\<open>[json.loads(line) for line in f]\<close>. The lines of a file keep their newline; a last line
  without one counts when it is not empty.
\<close>

fun split_lines :: "string \<Rightarrow> string \<Rightarrow> string list" where
  "split_lines line [] = (if line = [] then [] else [line])"
| "split_lines line (c # cs) =
     (if c = CHR 0x0A then (line @ [c]) # split_lines [] cs else split_lines (line @ [c]) cs)"

text \<open>
  Modelled from the spec: \<^verbatim>\<open>json.loads\<close>, for the objects whose values are strings. The
  line is cut into tokens, one character at a time; in a string, the escapes of JSON are
  read back, \<^verbatim>\<open>\uXXXX\<close> for the code points below 256, and a raw control character is an
  error. Anything else (a number, a list, a nested object) is not read: \<open>None\<close>.
\<close>

datatype token = LBrace | RBrace | Colon | Comma | Str string

datatype lexer = Between | InString string | Escape string | Unicode string "nat list"

definition json_whitespace :: "char \<Rightarrow> bool" where
  "json_whitespace c = (c = CHR '' '' \<or> c = CHR 0x09 \<or> c = CHR 0x0A \<or> c = CHR 0x0D)"

definition hex_value :: "char \<Rightarrow> nat option" where
  "hex_value c = (let n = (of_char c :: nat) in
     if 48 \<le> n \<and> n \<le> 57 then Some (n - 48)
     else if 97 \<le> n \<and> n \<le> 102 then Some (n - 87)
     else if 65 \<le> n \<and> n \<le> 70 then Some (n - 55)
     else None)"

definition unescape :: "char \<Rightarrow> char option" where
  "unescape c =
     (if c = CHR 0x22 then Some (CHR 0x22)
      else if c = CHR 0x5C then Some (CHR 0x5C)
      else if c = CHR ''/'' then Some (CHR ''/'')
      else if c = CHR ''b'' then Some (CHR 0x08)
      else if c = CHR ''f'' then Some (CHR 0x0C)
      else if c = CHR ''n'' then Some (CHR 0x0A)
      else if c = CHR ''r'' then Some (CHR 0x0D)
      else if c = CHR ''t'' then Some (CHR 0x09)
      else None)"

fun scan :: "lexer \<Rightarrow> string \<Rightarrow> token list option" where
  "scan Between [] = Some []"
| "scan _ [] = None"
| "scan Between (c # cs) =
     (if c = CHR ''{'' then map_option (Cons LBrace) (scan Between cs)
      else if c = CHR ''}'' then map_option (Cons RBrace) (scan Between cs)
      else if c = CHR '':'' then map_option (Cons Colon) (scan Between cs)
      else if c = CHR '','' then map_option (Cons Comma) (scan Between cs)
      else if c = CHR 0x22 then scan (InString []) cs
      else if json_whitespace c then scan Between cs
      else None)"
| "scan (InString s) (c # cs) =
     (if c = CHR 0x22 then map_option (Cons (Str s)) (scan Between cs)
      else if c = CHR 0x5C then scan (Escape s) cs
      else if (of_char c :: nat) < 32 then None
      else scan (InString (s @ [c])) cs)"
| "scan (Escape s) (c # cs) =
     (if c = CHR ''u'' then scan (Unicode s []) cs
      else case unescape c of None \<Rightarrow> None | Some d \<Rightarrow> scan (InString (s @ [d])) cs)"
| "scan (Unicode s digits) (c # cs) =
     (case hex_value c of
        None \<Rightarrow> None
      | Some d \<Rightarrow>
          if length digits < 3 then scan (Unicode s (digits @ [d])) cs
          else (let n = foldl (\<lambda>v h. 16 * v + h) 0 (digits @ [d]) in
                if n < 256 then scan (InString (s @ [char_of n])) cs else None))"

text \<open>The members of an object, after its opening brace.\<close>

fun parse_members :: "token list \<Rightarrow> (string \<times> string) list option" where
  "parse_members (Str k # Colon # Str v # RBrace # []) = Some [(k, v)]"
| "parse_members (Str k # Colon # Str v # Comma # rest) =
     map_option (Cons (k, v)) (parse_members rest)"
| "parse_members _ = None"

fun parse_object :: "token list \<Rightarrow> (string \<times> string) list option" where
  "parse_object [LBrace, RBrace] = Some []"
| "parse_object (LBrace # rest) = parse_members rest"
| "parse_object _ = None"

text \<open>The dict of the members is a Turn when its keys are \<^verbatim>\<open>role\<close> and \<^verbatim>\<open>content\<close>; of two
  members with the same key the later one counts, as in a Python dict.\<close>

definition turn_of_dict :: "(string \<times> string) list \<Rightarrow> Turn option" where
  "turn_of_dict members =
     (if set (map fst members) = {''role'', ''content''} then
        (case (map_of (rev members) ''role'', map_of (rev members) ''content'') of
           (Some r, Some c) \<Rightarrow> Some \<lparr>role = r, content = c\<rparr>
         | _ \<Rightarrow> None)
      else None)"

definition json_loads :: "string \<Rightarrow> Turn option" where
  "json_loads line = (case scan Between line of
       None \<Rightarrow> None
     | Some tokens \<Rightarrow> (case parse_object tokens of
          None \<Rightarrow> None
        | Some members \<Rightarrow> turn_of_dict members))"

text \<open>The whole log: \<open>None\<close> when a line is not read (\<^verbatim>\<open>json.loads\<close> raises).\<close>

definition read_log :: "string \<Rightarrow> Turn list option" where
  "read_log file = those (map json_loads (split_lines [] file))"

subsection \<open>Sample values\<close>

text \<open>Concrete arguments, a process and generators, for the instances below. The sample
  process normalizes the name of a tag as \<^verbatim>\<open>Style.normalize\<close> does for a name that is not a
  style definition (\<^verbatim>\<open>strip().lower()\<close>), and the parameters of its handler tags evaluate.\<close>

definition sample_args :: arguments where
  "sample_args =
     \<lparr>api_key = ''key'', model = ''sonar'', citations = False, no_stream = False, query = None\<rparr>"

definition buffered_args :: arguments where
  "buffered_args =
     \<lparr>api_key = ''key'', model = ''sonar'', citations = False, no_stream = True, query = None\<rparr>"

definition sample_process :: process where
  "sample_process =
     \<lparr>shutil_terminal_size = Some (2, 3), on_sigint = default_int_handler,
      style_normalize = (\<lambda>style. lower (strip style)), meta_error = (\<lambda>parameters. None)\<rparr>"

text \<open>Modelled from the spec: \<^verbatim>\<open>_build_api_payload\<close> is not in the source. The spec's payload
  holds the model, the two flags and the messages, which end with the new user Turn.\<close>

definition sample_build :: "string \<Rightarrow> string \<Rightarrow> bool \<Rightarrow> bool \<Rightarrow> payload" where
  "sample_build q m s c =
     \<lparr>pl_model = m, pl_stream = s, pl_show_citations = c,
      messages = Some [\<lparr>role = ''user'', content = q\<rparr>]\<rparr>"

definition hello_world :: "search_call \<Rightarrow> fragments" where
  "hello_world c = yields [''Hello'', '' World''] Exhausted"

definition hello_then_error :: "search_call \<Rightarrow> fragments" where
  "hello_then_error c = yields [''Hello''] (Fails (Exception ''API Error''))"

definition hello_then_sigint :: "search_call \<Rightarrow> fragments" where
  "hello_then_sigint c = yields [''Hello''] Interrupt"

text \<open>A reply that is one closing tag.\<close>

definition closing_tag :: "search_call \<Rightarrow> fragments" where
  "closing_tag c = yields [''[/b]''] Exhausted"

definition sample_globals :: "(search_call \<Rightarrow> fragments) \<Rightarrow> globals" where
  "sample_globals search =
     \<lparr>os_environ = Some (\<lambda>name. None), build_api_payload = Some sample_build,
      perform_search = Some search, parse_arguments = Some (Returns sample_args)\<rparr>"

text \<open>A namespace in which SIGINT arrives while \<^verbatim>\<open>parse_arguments\<close> runs.\<close>

definition early_sigint_globals :: globals where
  "early_sigint_globals =
     \<lparr>os_environ = Some (\<lambda>name. None), build_api_payload = Some sample_build,
      perform_search = Some hello_world, parse_arguments = Some Interrupted\<rparr>"

text \<open>A run of \<^verbatim>\<open>main\<close> in which SIGINT arrives during the update check, and one with no
  update, in which \<open>hi\<close> is typed at the prompt.\<close>

definition interrupted_script :: script where
  "interrupted_script =
     \<lparr>check_and_notify = Interrupted, update_answer = Returns [], update_package = Returns False,
      console_inputs = []\<rparr>"

definition quiet_script :: script where
  "quiet_script =
     \<lparr>check_and_notify = Returns None, update_answer = Returns [], update_package = Returns False,
      console_inputs = [Returns ''hi'', Returns ''more'']\<rparr>"

text \<open>Two runs in which a new version is found: SIGINT arrives at the question, and,
  the answer being yes, during the update.\<close>

definition asking_script :: script where
  "asking_script =
     \<lparr>check_and_notify = Returns (Some ''2.0''), update_answer = Interrupted,
      update_package = Returns False, console_inputs = []\<rparr>"

definition updating_script :: script where
  "updating_script =
     \<lparr>check_and_notify = Returns (Some ''2.0''), update_answer = Returns ''Y'',
      update_package = Interrupted, console_inputs = []\<rparr>"

text \<open>The query \<open>hi\<close> given on the command line.\<close>

definition query_args :: arguments where
  "query_args =
     \<lparr>api_key = ''key'', model = ''sonar'', citations = False, no_stream = False,
      query = Some [''hi'']\<rparr>"

definition query_globals :: globals where
  "query_globals =
     \<lparr>os_environ = Some (\<lambda>name. None), build_api_payload = Some sample_build,
      perform_search = Some hello_then_sigint, parse_arguments = Some (Returns query_args)\<rparr>"

lemmas sample_defs = sample_args_def buffered_args_def sample_process_def sample_build_def
  hello_world_def hello_then_error_def hello_then_sigint_def closing_tag_def sample_globals_def

section \<open>Properties\<close>

subsection \<open>Sequencing and the loop over the fragments\<close>

lemmas run_defs = ret_def raise_def emit_def bind_def try_except_Exception_def with_Live_def

lemma bind_emit: "bind (emit evs) f = (evs @ fst (f ()), snd (f ()))"
  by (cases "f ()") (simp add: run_defs)

lemma collect_chunks_yields:
  "collect_chunks p (yields fs ending) buffer = collect_chunks p ending (buffer @ fs)"
  by (induction fs arbitrary: buffer) (simp_all add: yields_def)

subsection \<open>Text that the console accepts\<close>

lemmas char_eval = char_of_eq_iff take_bit_eq_mod

lemmas markup_defs = markup_error_def apply_tag_def close_tag_def tag_of_def tag_start_def
  strip_def isspace_def Let_def decimal.simps char_eval

text \<open>A text without an opening bracket holds no tag.\<close>

lemma scan_plain_text:
  "CHR ''['' \<notin> set s \<Longrightarrow> scan_markup p (Plain k) i style_stack s = None"
  by (induction s arbitrary: k i) auto

lemma plain_text_accepted: "CHR ''['' \<notin> set s \<Longrightarrow> markup_error p s = None"
  by (simp add: markup_error_def scan_plain_text)

text \<open>The constant texts that core.py prints are accepted, whatever the library's
  normal form of a tag name is.\<close>

lemma constant_markup:
  "markup_error p ''[cyan]Clearing screen...[/cyan]'' = None"
  "markup_error p (replicate height CHR 0x0A) = None"
  "markup_error p ''[cyan]About to clear screen in no_stream mode...[/cyan]'' = None"
  "markup_error p
     ''[green]Entering interactive mode. Type your queries below. Type 'exit' to quit.[/green]'' =
     None"
  "markup_error p prompt = None"
  "markup_error p ''[yellow]Please enter a query or type 'exit' to quit.[/yellow]'' = None"
  "markup_error p ''[yellow]Exiting interactive mode.[/yellow]'' = None"
  "markup_error p interrupt_notice = None"
  "markup_error p
     ''[green]Successfully updated to the new version! The new version will be used on next execution.[/green]'' =
     None"
  "markup_error p
     ''[red]Update failed. Please try updating manually with: pip install --upgrade plexsearch[/red]'' =
     None"
  "markup_error p [] = None"
  by (simp_all add: plain_text_accepted) (simp_all add: markup_defs prompt_def interrupt_notice_def)

lemma error_line_accepted:
  "CHR ''['' \<notin> set (exn_str e) \<Longrightarrow> markup_error p (error_line e) = None"
  by (simp add: error_line_def markup_defs scan_plain_text)

lemma console_print_accepted:
  "markup_error p s = None \<Longrightarrow> console_print p s = emit [ConsolePrint s]"
  by (simp add: console_print_def)

lemma live_update_plain: "CHR ''['' \<notin> set s \<Longrightarrow> live_update p s = emit [LiveUpdate s]"
  by (simp add: live_update_def plain_text_accepted)

text \<open>A reply that is one closing tag is not accepted after the label.\<close>

lemma closing_tag_rejected:
  "markup_error p ''Perplexity: [/b]'' =
     Some (MarkupError ''closing tag '[/b]' at position 12 doesn't match any open tag'')"
  by (simp add: markup_defs)

subsection \<open>Buffered rendering\<close>

text \<open>
  C5. The claim has the buffered renderer return the concatenation of the fragments for
  every fragment sequence. Evaluated on the one fragment \<^verbatim>\<open>[/b]\<close>, the function of the
  source consumes the sequence under the spinner and then raises: its closing
  \<^verbatim>\<open>console.print\<close> reads the reply as markup and meets a closing tag that nothing opened.
  Nothing is printed and nothing is returned.
\<close>

theorem buffered_render_raises:
  "handle_no_stream_search (sample_globals closing_tag) sample_process ''q'' sample_args
     (sample_build ''q'' ''sonar'' False False) =
     ([ConsolePrint ''[cyan]About to clear screen in no_stream mode...[/cyan]'',
       ConsolePrint ''[cyan]Clearing screen...[/cyan]'',
       ConsolePrint [CHR 0x0A, CHR 0x0A],
       ConsoleClear,
       LiveStart (Spinner ''dots'' ''Searching...'') True,
       SearchRequest \<lparr>sc_query = ''q'', sc_api_key = ''key'', sc_model = ''sonar'',
                      sc_stream = False, sc_show_citations = False,
                      sc_context = Some [\<lparr>role = ''user'', content = ''q''\<rparr>]\<rparr>,
       LiveStop],
      Inl (MarkupError ''closing tag '[/b]' at position 12 doesn't match any open tag''))"
  by (simp add: handle_no_stream_search_def call_perform_search_def clear_new_area_def
      get_terminal_size_def console_print_def closing_tag_rejected sample_defs run_defs
      yields_def Let_def numeral_2_eq_2)

subsection \<open>Streaming rendering\<close>

text \<open>
  C6. The claim has the streaming renderer return and show the concatenation of the
  fragments for every fragment sequence. Evaluated on the one fragment \<^verbatim>\<open>[/b]\<close>, the
  function of the source raises at its first \<^verbatim>\<open>live.update\<close>, which reads the text as
  markup: the display is stopped with its empty text, and nothing is returned.
\<close>

theorem streaming_render_raises:
  "handle_streaming_search (sample_globals closing_tag) sample_process ''q'' sample_args
     (sample_build ''q'' ''sonar'' True False) =
     ([LiveStart (Text []) False,
       SearchRequest \<lparr>sc_query = ''q'', sc_api_key = ''key'', sc_model = ''sonar'',
                      sc_stream = True, sc_show_citations = False,
                      sc_context = Some [\<lparr>role = ''user'', content = ''q''\<rparr>]\<rparr>,
       LiveStop],
      Inl (MarkupError ''closing tag '[/b]' at position 12 doesn't match any open tag''))"
  by (simp add: handle_streaming_search_def call_perform_search_def live_update_def
      closing_tag_rejected sample_defs run_defs yields_def)

subsection \<open>Blank input and the word exit\<close>

lemma all_dropWhile: "(\<forall>c\<in>set (dropWhile P s). P c) \<longleftrightarrow> (\<forall>c\<in>set s. P c)"
  by (induction s) auto

lemma strip_blank_iff: "strip s = [] \<longleftrightarrow> list_all isspace s"
  by (simp add: strip_def list_all_iff all_dropWhile)

lemma lower_char_space: "isspace c \<Longrightarrow> lower_char c = c"
  by (auto simp: isspace_def lower_char_def Let_def)

lemma lower_char_eq_lowercase:
  assumes "lower_char c = d" and "97 \<le> (of_char d :: nat)" and "(of_char d :: nat) \<le> 122"
  shows "c = d \<or> c = char_of (of_char d - 32 :: nat)"
proof (cases "lower_char c = c")
  case True
  then show ?thesis using assms by simp
next
  case False
  then have up: "(65 \<le> (of_char c :: nat) \<and> (of_char c :: nat) \<le> 90) \<or>
      (192 \<le> (of_char c :: nat) \<and> (of_char c :: nat) \<le> 222 \<and> (of_char c :: nat) \<noteq> 215)"
    and d: "d = char_of ((of_char c :: nat) + 32)"
    using assms(1) by (auto simp: lower_char_def Let_def split: if_splits)
  have "(of_char d :: nat) = ((of_char c :: nat) + 32) mod 256"
    using d by simp
  also have "\<dots> = (of_char c :: nat) + 32" using up by auto
  finally have "(of_char c :: nat) = of_char d - 32" by simp
  then have "char_of (of_char c :: nat) = char_of (of_char d - 32 :: nat)" by simp
  then show ?thesis by simp
qed


lemma lower_exit_iff:
  "lower s = ''exit'' \<longleftrightarrow>
     (\<exists>c1 c2 c3 c4. s = [c1, c2, c3, c4] \<and> (c1 = CHR ''e'' \<or> c1 = CHR ''E'') \<and>
        (c2 = CHR ''x'' \<or> c2 = CHR ''X'') \<and> (c3 = CHR ''i'' \<or> c3 = CHR ''I'') \<and>
        (c4 = CHR ''t'' \<or> c4 = CHR ''T''))"
proof
  assume l: "lower s = ''exit''"
  then obtain c1 c2 c3 c4 where s: "s = [c1, c2, c3, c4]"
    and c: "lower_char c1 = CHR ''e''" "lower_char c2 = CHR ''x''"
           "lower_char c3 = CHR ''i''" "lower_char c4 = CHR ''t''"
    by (auto simp: lower_def map_eq_Cons_conv)
  have E: "char_of (69::nat) = CHR ''E''" and X: "char_of (88::nat) = CHR ''X''"
    and I: "char_of (73::nat) = CHR ''I''" and T: "char_of (84::nat) = CHR ''T''"
    by (simp_all add: char_eval)
  have "c1 = CHR ''e'' \<or> c1 = CHR ''E''" using lower_char_eq_lowercase[OF c(1)] by (simp add: E)
  moreover have "c2 = CHR ''x'' \<or> c2 = CHR ''X''"
    using lower_char_eq_lowercase[OF c(2)] by (simp add: X)
  moreover have "c3 = CHR ''i'' \<or> c3 = CHR ''I''"
    using lower_char_eq_lowercase[OF c(3)] by (simp add: I)
  moreover have "c4 = CHR ''t'' \<or> c4 = CHR ''T''"
    using lower_char_eq_lowercase[OF c(4)] by (simp add: T)
  ultimately show "\<exists>c1 c2 c3 c4. s = [c1, c2, c3, c4] \<and> (c1 = CHR ''e'' \<or> c1 = CHR ''E'') \<and>
        (c2 = CHR ''x'' \<or> c2 = CHR ''X'') \<and> (c3 = CHR ''i'' \<or> c3 = CHR ''I'') \<and>
        (c4 = CHR ''t'' \<or> c4 = CHR ''T'')" using s by blast
next
  assume "\<exists>c1 c2 c3 c4. s = [c1, c2, c3, c4] \<and> (c1 = CHR ''e'' \<or> c1 = CHR ''E'') \<and>
        (c2 = CHR ''x'' \<or> c2 = CHR ''X'') \<and> (c3 = CHR ''i'' \<or> c3 = CHR ''I'') \<and>
        (c4 = CHR ''t'' \<or> c4 = CHR ''T'')"
  then show "lower s = ''exit''"
    by (auto simp: lower_def lower_char_def char_eval)
qed

lemma lower_exit_not_blank: "lower s = ''exit'' \<Longrightarrow> \<not> list_all isspace s"
proof
  assume l: "lower s = ''exit''" and b: "list_all isspace s"
  from l obtain c cs where s: "s = c # cs" and c: "lower_char c = CHR ''e''"
    by (auto simp: lower_def map_eq_Cons_conv)
  from b s have sp: "isspace c" by simp
  then have "c = CHR ''e''" using c lower_char_space by simp
  with sp show False by (simp add: isspace_def)
qed

subsection \<open>One pass of the interactive loop\<close>

lemma loop_blank:
  "list_all isspace s \<Longrightarrow>
   interactive_loop g p a ctx (Returns s # rest) =
     prepend [ConsoleInput prompt,
              ConsolePrint ''[yellow]Please enter a query or type 'exit' to quit.[/yellow]'']
       (interactive_loop g p a ctx rest)"
  by (simp add: strip_blank_iff)

lemma loop_exit:
  "lower s = ''exit'' \<Longrightarrow>
   interactive_loop g p a ctx (Returns s # rest) =
     ([ConsoleInput prompt, ConsolePrint ''[yellow]Exiting interactive mode.[/yellow]''],
      ctx, Inr ())"
  using lower_exit_not_blank[of s] by (simp add: strip_blank_iff)

lemma loop_success:
  assumes "\<not> list_all isspace q" and "lower q \<noteq> ''exit''"
    and "handle_search g p q a (Some (ctx @ [\<lparr>role = ''user'', content = q\<rparr>])) = (evs, Inr reply)"
  shows "interactive_loop g p a ctx (Returns q # rest) =
     prepend (ConsoleInput prompt # fst (clear_new_area p) @ evs)
       (interactive_loop g p a
          (ctx @ [\<lparr>role = ''user'', content = q\<rparr>, \<lparr>role = ''assistant'', content = reply\<rparr>]) rest)"
  using assms by (simp add: strip_blank_iff Let_def)

text \<open>A search that fails with an \<^verbatim>\<open>Exception\<close>: the report, when the console accepts
  the error line, and what happens when it does not.\<close>

lemma loop_failure:
  assumes "\<not> list_all isspace q" and "lower q \<noteq> ''exit''"
    and "handle_search g p q a (Some (ctx @ [\<lparr>role = ''user'', content = q\<rparr>])) = (evs, Inl e)"
    and "is_Exception e" and "markup_error p (error_line e) = None"
  shows "interactive_loop g p a ctx (Returns q # rest) =
     prepend (ConsoleInput prompt # fst (clear_new_area p) @ evs @
              [ConsolePrint (error_line e), StderrPrint (error_line e)])
       (interactive_loop g p a (ctx @ [\<lparr>role = ''user'', content = q\<rparr>]) rest)"
  using assms by (simp add: strip_blank_iff Let_def console_print_def emit_def)

lemma loop_failure_unreported:
  assumes "\<not> list_all isspace q" and "lower q \<noteq> ''exit''"
    and "handle_search g p q a (Some (ctx @ [\<lparr>role = ''user'', content = q\<rparr>])) = (evs, Inl e)"
    and "is_Exception e" and "markup_error p (error_line e) = Some e'"
  shows "interactive_loop g p a ctx (Returns q # rest) =
     (ConsoleInput prompt # fst (clear_new_area p) @ evs,
      ctx @ [\<lparr>role = ''user'', content = q\<rparr>], Inl e')"
  using assms by (simp add: strip_blank_iff Let_def console_print_def raise_def)

lemma loop_abort:
  assumes "\<not> list_all isspace q" and "lower q \<noteq> ''exit''"
    and "handle_search g p q a (Some (ctx @ [\<lparr>role = ''user'', content = q\<rparr>])) = (evs, Inl e)"
    and "\<not> is_Exception e"
  shows "interactive_loop g p a ctx (Returns q # rest) =
     (ConsoleInput prompt # fst (clear_new_area p) @ evs,
      ctx @ [\<lparr>role = ''user'', content = q\<rparr>], Inl e)"
  using assms by (simp add: strip_blank_iff Let_def)

text \<open>Every pass starts with the prompt.\<close>

lemma loop_prompts_first:
  "\<exists>evs ctx' r. interactive_loop g p a ctx typed = (ConsoleInput prompt # evs, ctx', r)"
proof (cases typed)
  case Nil
  then show ?thesis by simp
next
  case (Cons t rest)
  show ?thesis
  proof (cases t)
    case (Returns s)
    let ?c1 = "ctx @ [\<lparr>role = ''user'', content = s\<rparr>]"
    obtain evs r where hs: "handle_search g p s a (Some ?c1) = (evs, r)"
      by (cases "handle_search g p s a (Some ?c1)")
    obtain e1 c1 r1 where l1: "interactive_loop g p a ctx rest = (e1, c1, r1)"
      by (cases "interactive_loop g p a ctx rest") auto
    show ?thesis
    proof (cases r)
      case (Inl e)
      obtain e2 c2 r2 where l2: "interactive_loop g p a ?c1 rest = (e2, c2, r2)"
        by (cases "interactive_loop g p a ?c1 rest") auto
      show ?thesis using Cons Returns hs Inl l1 l2
        by (cases "markup_error p (error_line e)")
           (simp_all add: Let_def prepend_def console_print_def emit_def raise_def)
    next
      case (Inr reply)
      obtain e2 c2 r2 where l2: "interactive_loop g p a
          (?c1 @ [\<lparr>role = ''assistant'', content = reply\<rparr>]) rest = (e2, c2, r2)"
        by (cases "interactive_loop g p a
          (?c1 @ [\<lparr>role = ''assistant'', content = reply\<rparr>]) rest") auto
      show ?thesis using Cons Returns hs Inr l1 l2
        by (simp add: Let_def prepend_def)
    qed
  next
    case (Raises e)
    then show ?thesis using Cons by simp
  next
    case Interrupted
    then show ?thesis using Cons by simp
  qed
qed

text \<open>The context only grows.\<close>

lemma loop_context_extends:
  "\<exists>more. fst (snd (interactive_loop g p a ctx typed)) = ctx @ more"
proof (induction typed arbitrary: ctx)
  case Nil
  show ?case by simp
next
  case (Cons t rest)
  show ?case
  proof (cases t)
    case (Returns s)
    let ?c1 = "ctx @ [\<lparr>role = ''user'', content = s\<rparr>]"
    obtain evs r where hs: "handle_search g p s a (Some ?c1) = (evs, r)"
      by (cases "handle_search g p s a (Some ?c1)")
    from Cons[of ctx] obtain m0 where m0: "fst (snd (interactive_loop g p a ctx rest)) = ctx @ m0"
      by blast
    show ?thesis
    proof (cases r)
      case (Inl e)
      from Cons[of ?c1] obtain m1 where
        "fst (snd (interactive_loop g p a ?c1 rest)) = ?c1 @ m1" by blast
      then show ?thesis using Returns hs Inl m0
        by (cases "markup_error p (error_line e)")
           (auto simp: Let_def prepend_def console_print_def emit_def raise_def
              split: prod.splits)
    next
      case (Inr reply)
      from Cons[of "?c1 @ [\<lparr>role = ''assistant'', content = reply\<rparr>]"] obtain m1 where
        "fst (snd (interactive_loop g p a (?c1 @ [\<lparr>role = ''assistant'', content = reply\<rparr>]) rest))
           = (?c1 @ [\<lparr>role = ''assistant'', content = reply\<rparr>]) @ m1" by blast
      then show ?thesis using Returns hs Inr m0
        by (auto simp: Let_def prepend_def split: prod.splits)
    qed
  next
    case (Raises e)
    then show ?thesis by simp
  next
    case Interrupted
    then show ?thesis by simp
  qed
qed

subsection \<open>What the loop does with a line\<close>

text \<open>
  C7. A line is the word exit in any letter case exactly when \<open>lower\<close> makes it
  \<open>exit\<close>. Such a line ends the loop, with the context as it was. A blank line (empty,
  or white space only) is answered by a notice and the loop goes on with the rest of the
  input and the same context: nothing is searched. Every other line is submitted: the
  screen is cleared, \<open>handle_search\<close> runs on the line with the context extended by the
  user Turn, and the context keeps this Turn.
\<close>

theorem interactive_loop_inputs:
  "(lower s = ''exit'' \<longleftrightarrow>
      (\<exists>c1 c2 c3 c4. s = [c1, c2, c3, c4] \<and> (c1 = CHR ''e'' \<or> c1 = CHR ''E'') \<and>
        (c2 = CHR ''x'' \<or> c2 = CHR ''X'') \<and> (c3 = CHR ''i'' \<or> c3 = CHR ''I'') \<and>
        (c4 = CHR ''t'' \<or> c4 = CHR ''T''))) \<and>
   (lower s = ''exit'' \<longrightarrow>
      interactive_loop g p a ctx (Returns s # rest) =
        ([ConsoleInput prompt, ConsolePrint ''[yellow]Exiting interactive mode.[/yellow]''],
         ctx, Inr ())) \<and>
   (list_all isspace s \<longrightarrow>
      interactive_loop g p a ctx (Returns s # rest) =
        prepend [ConsoleInput prompt,
                 ConsolePrint ''[yellow]Please enter a query or type 'exit' to quit.[/yellow]'']
          (interactive_loop g p a ctx rest)) \<and>
   (\<not> list_all isspace s \<and> lower s \<noteq> ''exit'' \<longrightarrow>
      (\<exists>evs more r.
         interactive_loop g p a ctx (Returns s # rest) =
           (ConsoleInput prompt # fst (clear_new_area p) @
              fst (handle_search g p s a (Some (ctx @ [\<lparr>role = ''user'', content = s\<rparr>]))) @ evs,
            ctx @ \<lparr>role = ''user'', content = s\<rparr> # more, r)))"
proof (intro conjI impI)
  show "lower s = ''exit'' \<longleftrightarrow>
      (\<exists>c1 c2 c3 c4. s = [c1, c2, c3, c4] \<and> (c1 = CHR ''e'' \<or> c1 = CHR ''E'') \<and>
        (c2 = CHR ''x'' \<or> c2 = CHR ''X'') \<and> (c3 = CHR ''i'' \<or> c3 = CHR ''I'') \<and>
        (c4 = CHR ''t'' \<or> c4 = CHR ''T''))"
    by (rule lower_exit_iff)
next
  assume "lower s = ''exit''"
  then show "interactive_loop g p a ctx (Returns s # rest) =
        ([ConsoleInput prompt, ConsolePrint ''[yellow]Exiting interactive mode.[/yellow]''],
         ctx, Inr ())"
    by (rule loop_exit)
next
  assume "list_all isspace s"
  then show "interactive_loop g p a ctx (Returns s # rest) =
        prepend [ConsoleInput prompt,
                 ConsolePrint ''[yellow]Please enter a query or type 'exit' to quit.[/yellow]'']
          (interactive_loop g p a ctx rest)"
    by (rule loop_blank)
next
  let ?u = "\<lparr>role = ''user'', content = s\<rparr>"
  assume "\<not> list_all isspace s \<and> lower s \<noteq> ''exit''"
  then have nb: "\<not> list_all isspace s" and ne: "lower s \<noteq> ''exit''" by simp_all
  obtain hev hr where hs: "handle_search g p s a (Some (ctx @ [?u])) = (hev, hr)"
    by (cases "handle_search g p s a (Some (ctx @ [?u]))")
  show "\<exists>evs more r.
         interactive_loop g p a ctx (Returns s # rest) =
           (ConsoleInput prompt # fst (clear_new_area p) @
              fst (handle_search g p s a (Some (ctx @ [?u]))) @ evs,
            ctx @ ?u # more, r)"
  proof (cases hr)
    case (Inr reply)
    let ?c2 = "ctx @ [?u, \<lparr>role = ''assistant'', content = reply\<rparr>]"
    obtain e2 c2 r2 where l2: "interactive_loop g p a ?c2 rest = (e2, c2, r2)"
      by (cases "interactive_loop g p a ?c2 rest") auto
    from loop_context_extends[of g p a ?c2 rest] l2 obtain m where "c2 = ?c2 @ m" by auto
    then show ?thesis
      using loop_success[OF nb ne, of g p a ctx hev reply rest] hs Inr l2
      by (simp add: prepend_def)
  next
    case (Inl e)
    show ?thesis
    proof (cases "is_Exception e")
      case True
      show ?thesis
      proof (cases "markup_error p (error_line e)")
        case None
        let ?c1 = "ctx @ [?u]"
        obtain e2 c2 r2 where l2: "interactive_loop g p a ?c1 rest = (e2, c2, r2)"
          by (cases "interactive_loop g p a ?c1 rest") auto
        from loop_context_extends[of g p a ?c1 rest] l2 obtain m where "c2 = ?c1 @ m" by auto
        then show ?thesis
          using loop_failure[OF nb ne, of g p a ctx hev e rest] hs Inl True None l2
          by (simp add: prepend_def)
      next
        case (Some e')
        then show ?thesis
          using loop_failure_unreported[OF nb ne, of g p a ctx hev e e' rest] hs Inl True
          by simp
      qed
    next
      case False
      then show ?thesis
        using loop_abort[OF nb ne, of g p a ctx hev e rest] hs Inl
        by simp
    qed
  qed
qed

theorem interactive_loop_inputs_witness:
  "lower ''eXiT'' = ''exit'' \<and>
   interactive_loop (sample_globals hello_world) sample_process sample_args []
       [Returns ''eXiT'', Returns ''more''] =
     ([ConsoleInput prompt, ConsolePrint ''[yellow]Exiting interactive mode.[/yellow]''],
      [], Inr ()) \<and>
   list_all isspace '' '' \<and>
   interactive_loop (sample_globals hello_world) sample_process sample_args [] [Returns '' ''] =
     ([ConsoleInput prompt,
       ConsolePrint ''[yellow]Please enter a query or type 'exit' to quit.[/yellow]'',
       ConsoleInput prompt],
      [], Inl EOFError) \<and>
   \<not> list_all isspace '' exit '' \<and> lower '' exit '' \<noteq> ''exit'' \<and>
   hd (fst (snd (interactive_loop (sample_globals hello_world) sample_process sample_args []
       [Returns '' exit '']))) = \<lparr>role = ''user'', content = '' exit ''\<rparr>"
proof -
  note t = interactive_loop_inputs [where g = "sample_globals hello_world"
      and p = sample_process and a = sample_args and ctx = "[]"]
  have e: "lower ''eXiT'' = ''exit''"
    by (simp add: lower_def lower_char_def char_eval)
  have b: "list_all isspace '' ''"
    by (simp add: isspace_def)
  have n: "\<not> list_all isspace '' exit '' \<and> lower '' exit '' \<noteq> ''exit''"
    by (simp add: isspace_def lower_def)
  have 1: "interactive_loop (sample_globals hello_world) sample_process sample_args []
       [Returns ''eXiT'', Returns ''more''] =
     ([ConsoleInput prompt, ConsolePrint ''[yellow]Exiting interactive mode.[/yellow]''],
      [], Inr ())"
    by (rule t [where s = "''eXiT''" and rest = "[Returns ''more'']",
          THEN conjunct2, THEN conjunct1, THEN mp, OF e])
  have "interactive_loop (sample_globals hello_world) sample_process sample_args []
       [Returns '' ''] =
     prepend [ConsoleInput prompt,
              ConsolePrint ''[yellow]Please enter a query or type 'exit' to quit.[/yellow]'']
       (interactive_loop (sample_globals hello_world) sample_process sample_args [] [])"
    by (rule t [where s = "'' ''" and rest = "[]",
          THEN conjunct2, THEN conjunct2, THEN conjunct1, THEN mp, OF b])
  also have "\<dots> = ([ConsoleInput prompt,
       ConsolePrint ''[yellow]Please enter a query or type 'exit' to quit.[/yellow]'',
       ConsoleInput prompt],
      [], Inl EOFError)"
    by (simp add: prepend_def)
  finally have 2: "interactive_loop (sample_globals hello_world) sample_process sample_args []
       [Returns '' ''] = ([ConsoleInput prompt,
       ConsolePrint ''[yellow]Please enter a query or type 'exit' to quit.[/yellow]'',
       ConsoleInput prompt],
      [], Inl EOFError)" .
  have "\<exists>evs more r.
      interactive_loop (sample_globals hello_world) sample_process sample_args []
        [Returns '' exit ''] =
        (ConsoleInput prompt # fst (clear_new_area sample_process) @
           fst (handle_search (sample_globals hello_world) sample_process '' exit '' sample_args
                  (Some ([] @ [\<lparr>role = ''user'', content = '' exit ''\<rparr>]))) @ evs,
         [] @ \<lparr>role = ''user'', content = '' exit ''\<rparr> # more, r)"
    by (rule t [where s = "'' exit ''" and rest = "[]",
          THEN conjunct2, THEN conjunct2, THEN conjunct2, THEN mp, OF n])
  then have 3: "hd (fst (snd (interactive_loop (sample_globals hello_world) sample_process
      sample_args [] [Returns '' exit '']))) = \<lparr>role = ''user'', content = '' exit ''\<rparr>"
    by (elim exE) (simp only: fst_conv snd_conv append_Nil list.sel)
  show ?thesis
    by (intro conjI e 1 b 2 n[THEN conjunct1] n[THEN conjunct2] 3)
qed

subsection \<open>Sample runs of one search\<close>

lemma lower_exit_literal: "lower ''exit'' = ''exit''"
  by (simp add: lower_def lower_char_def)

lemma hi_is_a_query: "\<not> list_all isspace ''hi'' \<and> lower ''hi'' \<noteq> ''exit''"
  by (simp add: isspace_def lower_def)

lemma hi_search_succeeds:
  "handle_search (sample_globals hello_world) sample_process ''hi'' sample_args
      (Some [\<lparr>role = ''user'', content = ''hi''\<rparr>]) =
      ([LiveStart (Text []) False,
        SearchRequest \<lparr>sc_query = ''hi'', sc_api_key = ''key'', sc_model = ''sonar'',
          sc_stream = True, sc_show_citations = False,
          sc_context = Some [\<lparr>role = ''user'', content = ''hi''\<rparr>]\<rparr>,
        LiveUpdate ''Perplexity: Hello'', LiveUpdate ''Perplexity: Hello World'', LiveStop],
       Inr ''Hello World'')"
  by (simp add: handle_search_def no_stream_mode_def handle_streaming_search_def
      call_perform_search_def live_update_plain sample_defs run_defs yields_def Let_def)

lemma hi_search_fails:
  "handle_search (sample_globals hello_then_error) sample_process ''hi'' sample_args
      (Some [\<lparr>role = ''user'', content = ''hi''\<rparr>]) =
      ([LiveStart (Text []) False,
        SearchRequest \<lparr>sc_query = ''hi'', sc_api_key = ''key'', sc_model = ''sonar'',
          sc_stream = True, sc_show_citations = False,
          sc_context = Some [\<lparr>role = ''user'', content = ''hi''\<rparr>]\<rparr>,
        LiveUpdate ''Perplexity: Hello'', LiveStop],
       Inl (Exception ''API Error''))"
  by (simp add: handle_search_def no_stream_mode_def handle_streaming_search_def
      call_perform_search_def live_update_plain sample_defs run_defs yields_def Let_def)

lemma api_error_line_accepted:
  "markup_error sample_process (error_line (Exception ''API Error'')) = None"
  by (rule error_line_accepted) simp

subsection \<open>A round trip that succeeds\<close>

text \<open>
  C3. Let \<open>q\<close> be a line that is neither blank nor the word exit, and let
  \<open>handle_search\<close>, called with the context that holds the user Turn only, return the
  text \<open>reply\<close>. Then one pass of the loop from the empty context goes on with the
  context of exactly two Turns: the user Turn with content \<open>q\<close>, then the assistant Turn
  with content \<open>reply\<close>. A session of this one query and then exit ends with this
  context.
\<close>

theorem successful_round_trip:
  assumes "\<not> list_all isspace q" and "lower q \<noteq> ''exit''"
    and "handle_search g p q a (Some [\<lparr>role = ''user'', content = q\<rparr>]) = (evs, Inr reply)"
  shows "interactive_loop g p a [] (Returns q # rest) =
           prepend (ConsoleInput prompt # fst (clear_new_area p) @ evs)
             (interactive_loop g p a
                [\<lparr>role = ''user'', content = q\<rparr>, \<lparr>role = ''assistant'', content = reply\<rparr>]
                rest) \<and>
         fst (snd (handle_interactive_mode g p a None [Returns q, Returns ''exit''])) =
           [\<lparr>role = ''user'', content = q\<rparr>, \<lparr>role = ''assistant'', content = reply\<rparr>]"
proof -
  let ?two = "[\<lparr>role = ''user'', content = q\<rparr>, \<lparr>role = ''assistant'', content = reply\<rparr>]"
  have step: "\<And>rest. interactive_loop g p a [] (Returns q # rest) =
      prepend (ConsoleInput prompt # fst (clear_new_area p) @ evs)
        (interactive_loop g p a ?two rest)"
    using loop_success[OF assms(1,2), of g p a "[]" evs reply] assms(3) by simp
  have ex: "lower ''exit'' = ''exit''"
    by (simp add: lower_def lower_char_def)
  have "interactive_loop g p a ?two [Returns ''exit''] =
      ([ConsoleInput prompt, ConsolePrint ''[yellow]Exiting interactive mode.[/yellow]''],
       ?two, Inr ())"
    by (rule loop_exit[OF ex])
  then have "fst (snd (handle_interactive_mode g p a None [Returns q, Returns ''exit''])) = ?two"
    by (simp only: handle_interactive_mode_def step prepend_def option.case prod.case
        fst_conv snd_conv)
  then show ?thesis using step by blast
qed

theorem successful_round_trip_witness:
  "\<not> list_all isspace ''hi'' \<and> lower ''hi'' \<noteq> ''exit'' \<and>
   snd (handle_search (sample_globals hello_world) sample_process ''hi'' sample_args
          (Some [\<lparr>role = ''user'', content = ''hi''\<rparr>])) = Inr ''Hello World'' \<and>
   fst (snd (handle_interactive_mode (sample_globals hello_world) sample_process sample_args None
          [Returns ''hi'', Returns ''exit''])) =
     [\<lparr>role = ''user'', content = ''hi''\<rparr>, \<lparr>role = ''assistant'', content = ''Hello World''\<rparr>]"
proof -
  note q = hi_is_a_query
  have "fst (snd (handle_interactive_mode (sample_globals hello_world) sample_process sample_args
          None [Returns ''hi'', Returns ''exit''])) =
     [\<lparr>role = ''user'', content = ''hi''\<rparr>, \<lparr>role = ''assistant'', content = ''Hello World''\<rparr>]"
    by (rule successful_round_trip [OF q[THEN conjunct1] q[THEN conjunct2] hi_search_succeeds,
          THEN conjunct2])
  moreover have "snd (handle_search (sample_globals hello_world) sample_process ''hi'' sample_args
          (Some [\<lparr>role = ''user'', content = ''hi''\<rparr>])) = Inr ''Hello World''"
    by (simp only: hi_search_succeeds snd_conv)
  ultimately show ?thesis
    by (intro conjI q[THEN conjunct1] q[THEN conjunct2])
qed

subsection \<open>A round trip that fails\<close>

text \<open>
  C1, as amended. Let \<open>q\<close> be a line that is neither blank nor the word exit, let
  \<open>handle_search\<close> raise an exception \<open>e\<close> that is an \<^verbatim>\<open>Exception\<close>, and let the console
  accept the error line of \<open>e\<close> as markup. Then the loop prints the error line on the
  console and on the standard error stream, prompts again, and goes on as the loop does
  from the context extended by the user Turn alone: no assistant Turn is appended, and
  the user Turn, appended before the search, stays.
\<close>

theorem failed_turn_reported:
  assumes "\<not> list_all isspace q" and "lower q \<noteq> ''exit''"
    and "handle_search g p q a (Some (ctx @ [\<lparr>role = ''user'', content = q\<rparr>])) = (evs, Inl e)"
    and "is_Exception e"
    and "markup_error p (error_line e) = None"
  shows "\<exists>later ctx' r.
     interactive_loop g p a (ctx @ [\<lparr>role = ''user'', content = q\<rparr>]) rest =
       (ConsoleInput prompt # later, ctx', r) \<and>
     interactive_loop g p a ctx (Returns q # rest) =
       (ConsoleInput prompt # fst (clear_new_area p) @ evs @
          [ConsolePrint (error_line e), StderrPrint (error_line e), ConsoleInput prompt] @ later,
        ctx', r)"
proof -
  let ?c1 = "ctx @ [\<lparr>role = ''user'', content = q\<rparr>]"
  from loop_prompts_first[of g p a ?c1 rest] obtain later ctx' r where
    l: "interactive_loop g p a ?c1 rest = (ConsoleInput prompt # later, ctx', r)" by blast
  have "interactive_loop g p a ctx (Returns q # rest) =
       (ConsoleInput prompt # fst (clear_new_area p) @ evs @
          [ConsolePrint (error_line e), StderrPrint (error_line e), ConsoleInput prompt] @ later,
        ctx', r)"
    unfolding loop_failure[OF assms] l by (simp add: prepend_def)
  with l show ?thesis by blast
qed

theorem failed_turn_reported_witness:
  "\<not> list_all isspace ''hi'' \<and> lower ''hi'' \<noteq> ''exit'' \<and>
   is_Exception (Exception ''API Error'') \<and>
   markup_error sample_process (error_line (Exception ''API Error'')) = None \<and>
   (\<exists>later ctx' r.
     interactive_loop (sample_globals hello_then_error) sample_process sample_args
         ([] @ [\<lparr>role = ''user'', content = ''hi''\<rparr>]) [Returns ''exit''] =
       (ConsoleInput prompt # later, ctx', r) \<and>
     interactive_loop (sample_globals hello_then_error) sample_process sample_args []
         [Returns ''hi'', Returns ''exit''] =
       (ConsoleInput prompt # fst (clear_new_area sample_process) @
          [LiveStart (Text []) False,
           SearchRequest \<lparr>sc_query = ''hi'', sc_api_key = ''key'', sc_model = ''sonar'',
             sc_stream = True, sc_show_citations = False,
             sc_context = Some [\<lparr>role = ''user'', content = ''hi''\<rparr>]\<rparr>,
           LiveUpdate ''Perplexity: Hello'', LiveStop] @
          [ConsolePrint (error_line (Exception ''API Error'')),
           StderrPrint (error_line (Exception ''API Error'')), ConsoleInput prompt] @ later,
        ctx', r))"
proof -
  note q = hi_is_a_query
  have f: "handle_search (sample_globals hello_then_error) sample_process ''hi'' sample_args
      (Some ([] @ [\<lparr>role = ''user'', content = ''hi''\<rparr>])) =
      ([LiveStart (Text []) False,
        SearchRequest \<lparr>sc_query = ''hi'', sc_api_key = ''key'', sc_model = ''sonar'',
          sc_stream = True, sc_show_citations = False,
          sc_context = Some [\<lparr>role = ''user'', content = ''hi''\<rparr>]\<rparr>,
        LiveUpdate ''Perplexity: Hello'', LiveStop],
       Inl (Exception ''API Error''))"
    by (simp only: append_Nil hi_search_fails)
  have x: "is_Exception (Exception ''API Error'')" by simp
  note m = api_error_line_accepted
  show ?thesis
    by (intro conjI q[THEN conjunct1] q[THEN conjunct2] x m
        failed_turn_reported [OF q[THEN conjunct1] q[THEN conjunct2] f x m])
qed

text \<open>
  C1, as stated, fails: the search of the query \<open>hi\<close> raises, and the session that ends
  right after it leaves the user Turn of the failed exchange in the context.
\<close>

theorem failed_turn_keeps_user_turn:
  "snd (handle_search (sample_globals hello_then_error) sample_process ''hi'' sample_args
          (Some [\<lparr>role = ''user'', content = ''hi''\<rparr>])) = Inl (Exception ''API Error'') \<and>
   fst (snd (handle_interactive_mode (sample_globals hello_then_error) sample_process sample_args
          None [Returns ''hi'', Returns ''exit''])) = [\<lparr>role = ''user'', content = ''hi''\<rparr>]"
proof -
  note q = hi_is_a_query
  have f: "handle_search (sample_globals hello_then_error) sample_process ''hi'' sample_args
      (Some ([] @ [\<lparr>role = ''user'', content = ''hi''\<rparr>])) =
      ([LiveStart (Text []) False,
        SearchRequest \<lparr>sc_query = ''hi'', sc_api_key = ''key'', sc_model = ''sonar'',
          sc_stream = True, sc_show_citations = False,
          sc_context = Some [\<lparr>role = ''user'', content = ''hi''\<rparr>]\<rparr>,
        LiveUpdate ''Perplexity: Hello'', LiveStop],
       Inl (Exception ''API Error''))"
    by (simp only: append_Nil hi_search_fails)
  have x: "is_Exception (Exception ''API Error'')" by simp
  have "fst (snd (handle_interactive_mode (sample_globals hello_then_error) sample_process
          sample_args None [Returns ''hi'', Returns ''exit''])) =
        [\<lparr>role = ''user'', content = ''hi''\<rparr>]"
    by (simp only: handle_interactive_mode_def option.case
        loop_failure [OF q[THEN conjunct1] q[THEN conjunct2] f x api_error_line_accepted]
        loop_exit [OF lower_exit_literal] prepend_def prod.case fst_conv snd_conv append_Nil)
  moreover have "snd (handle_search (sample_globals hello_then_error) sample_process ''hi''
      sample_args (Some [\<lparr>role = ''user'', content = ''hi''\<rparr>])) = Inl (Exception ''API Error'')"
    by (simp only: hi_search_fails snd_conv)
  ultimately show ?thesis by (intro conjI)
qed

subsection \<open>A search that fails while it yields\<close>

text \<open>
  C2. The claim has both renderers catch the failure of the fragment sequence, show an
  error marker and return the text gathered so far. Evaluated on a generator that yields
  \<open>Hello\<close> and then raises, both functions of the source raise the exception instead: the
  display is stopped, nothing is printed for the error, and no text is returned.
\<close>

theorem renderers_raise_past_boundary:
  "handle_streaming_search (sample_globals hello_then_error) sample_process ''q'' sample_args
     (sample_build ''q'' ''sonar'' True False) =
     ([LiveStart (Text []) False,
       SearchRequest \<lparr>sc_query = ''q'', sc_api_key = ''key'', sc_model = ''sonar'',
                      sc_stream = True, sc_show_citations = False,
                      sc_context = Some [\<lparr>role = ''user'', content = ''q''\<rparr>]\<rparr>,
       LiveUpdate ''Perplexity: Hello'',
       LiveStop],
      Inl (Exception ''API Error'')) \<and>
   handle_no_stream_search (sample_globals hello_then_error) sample_process ''q'' sample_args
     (sample_build ''q'' ''sonar'' False False) =
     ([ConsolePrint ''[cyan]About to clear screen in no_stream mode...[/cyan]'',
       ConsolePrint ''[cyan]Clearing screen...[/cyan]'',
       ConsolePrint [CHR 0x0A, CHR 0x0A],
       ConsoleClear,
       LiveStart (Spinner ''dots'' ''Searching...'') True,
       SearchRequest \<lparr>sc_query = ''q'', sc_api_key = ''key'', sc_model = ''sonar'',
                      sc_stream = False, sc_show_citations = False,
                      sc_context = Some [\<lparr>role = ''user'', content = ''q''\<rparr>]\<rparr>,
       LiveStop],
      Inl (Exception ''API Error''))"
  by (simp add: handle_streaming_search_def handle_no_stream_search_def call_perform_search_def
      clear_new_area_def get_terminal_size_def live_update_plain sample_defs run_defs yields_def
      Let_def numeral_2_eq_2)

subsection \<open>The names that core.py does not bind\<close>

lemma core_names_unbound:
  "bound_in core_module_names ''os'' v = None"
  "bound_in core_module_names ''_build_api_payload'' v1 = None"
  "bound_in core_module_names ''perform_search'' v2 = None"
  "bound_in core_module_names ''parse_arguments'' v3 = None"
  by (simp_all add: bound_in_def core_module_names_def)

text \<open>
  C4. In the namespace of core.py as it is written, whatever the four missing names would
  stand for: \<open>handle_search\<close> raises \<^verbatim>\<open>NameError\<close> at once, for \<^verbatim>\<open>os\<close>, or for
  \<^verbatim>\<open>_build_api_payload\<close> when \<^verbatim>\<open>args.no_stream\<close> holds and \<^verbatim>\<open>os\<close> is not looked up;
  \<open>handle_no_stream_search\<close> raises it for \<^verbatim>\<open>perform_search\<close> once the spinner is shown;
  \<open>main\<close> raises it for \<^verbatim>\<open>parse_arguments\<close>, reports it on both streams and exits with
  status 1. None of the three issues a search request. Importing the package fails,
  since \<^verbatim>\<open>__init__.py\<close> asks core for \<^verbatim>\<open>perform_search\<close>.
\<close>

theorem unbound_names_raise:
  "handle_search (core_globals g) p q a ctx =
     ([], Inl (NameError (if no_stream a then ''_build_api_payload'' else ''os''))) \<and>
   handle_no_stream_search (core_globals g) p q a pl =
     (ConsolePrint ''[cyan]About to clear screen in no_stream mode...[/cyan]'' #
      fst (clear_new_area p) @ [LiveStart (Spinner ''dots'' ''Searching...'') True, LiveStop],
      Inl (NameError ''perform_search'')) \<and>
   main (core_globals g) p s =
     ([ConsolePrint (error_line (NameError ''parse_arguments'')),
       StderrPrint (error_line (NameError ''parse_arguments''))],
      Inl (SystemExit 1)) \<and>
   plexsearch_init = Inl (ImportError ''perform_search'')"
proof (intro conjI)
  show "handle_search (core_globals g) p q a ctx =
     ([], Inl (NameError (if no_stream a then ''_build_api_payload'' else ''os'')))"
    by (simp add: handle_search_def no_stream_mode_def core_globals_def core_names_unbound
        run_defs)
  show "handle_no_stream_search (core_globals g) p q a pl =
     (ConsolePrint ''[cyan]About to clear screen in no_stream mode...[/cyan]'' #
      fst (clear_new_area p) @ [LiveStart (Spinner ''dots'' ''Searching...'') True, LiveStop],
      Inl (NameError ''perform_search''))"
    by (simp add: handle_no_stream_search_def call_perform_search_def clear_new_area_def
        core_globals_def core_names_unbound run_defs Let_def)
  show "main (core_globals g) p s =
     ([ConsolePrint (error_line (NameError ''parse_arguments'')),
       StderrPrint (error_line (NameError ''parse_arguments''))],
      Inl (SystemExit 1))"
    by (simp add: main_def core_globals_def core_names_unbound try_except_Exception_def
        raise_def console_print_accepted[OF error_line_accepted] bind_emit)
  show "plexsearch_init = Inl (ImportError ''perform_search'')"
    by (simp add: plexsearch_init_def import_from_def core_module_names_def)
qed

subsection \<open>The interrupt signal\<close>

lemma handler_installed: "on_sigint (setup_signal_handler p) = handle_interrupt"
  by (simp add: setup_signal_handler_def)

lemma sigint_exits:
  "on_sigint p = handle_interrupt \<Longrightarrow>
   sigint_arrives p = ([SIGINT, ConsolePrint interrupt_notice], Inl (SystemExit 0))"
  by (simp add: sigint_arrives_def)

lemma update_chunks_interrupted:
  assumes "on_sigint p = handle_interrupt"
  shows "list_all (\<lambda>text. markup_error p text = None) (update_texts acc fs) \<Longrightarrow>
     update_chunks p (yields fs Interrupt) acc =
       (map LiveUpdate (update_texts acc fs) @ [SIGINT, ConsolePrint interrupt_notice],
        Inl (SystemExit 0))"
  by (induction fs arbitrary: acc)
     (simp_all add: yields_def live_update_def bind_emit sigint_exits[OF assms])

lemma search_buffered_interrupted:
  assumes h: "on_sigint p = handle_interrupt"
    and "no_stream_mode g a = ret True" and "build_api_payload g = Some build"
    and "perform_search g = Some search"
    and "search \<lparr>sc_query = q, sc_api_key = api_key a, sc_model = model a, sc_stream = False,
                 sc_show_citations = citations a,
                 sc_context = (if truthy ctxo then ctxo
                               else messages (build q (model a) False (citations a)))\<rparr> =
         yields fs Interrupt"
  shows "handle_search g p q a ctxo =
     (ConsolePrint ''[cyan]About to clear screen in no_stream mode...[/cyan]'' #
      fst (clear_new_area p) @
      [LiveStart (Spinner ''dots'' ''Searching...'') True,
       SearchRequest \<lparr>sc_query = q, sc_api_key = api_key a, sc_model = model a,
                      sc_stream = False, sc_show_citations = citations a,
                      sc_context = (if truthy ctxo then ctxo
                                    else messages (build q (model a) False (citations a)))\<rparr>,
       SIGINT, ConsolePrint interrupt_notice, LiveStop],
      Inl (SystemExit 0))"
  using assms(2-)
  by (cases "truthy ctxo")
     (simp_all add: handle_search_def handle_no_stream_search_def call_perform_search_def
        clear_new_area_def collect_chunks_yields sigint_exits[OF h] run_defs Let_def)

lemma search_streaming_interrupted:
  assumes h: "on_sigint p = handle_interrupt"
    and "no_stream_mode g a = ret False" and "build_api_payload g = Some build"
    and "perform_search g = Some search"
    and "search \<lparr>sc_query = q, sc_api_key = api_key a, sc_model = model a, sc_stream = True,
                 sc_show_citations = citations a,
                 sc_context = (if truthy ctxo then ctxo
                               else messages (build q (model a) True (citations a)))\<rparr> =
         yields fs Interrupt"
    and u: "list_all (\<lambda>text. markup_error p text = None) (update_texts [] fs)"
  shows "handle_search g p q a ctxo =
     (LiveStart (Text []) False #
      SearchRequest \<lparr>sc_query = q, sc_api_key = api_key a, sc_model = model a,
                     sc_stream = True, sc_show_citations = citations a,
                     sc_context = (if truthy ctxo then ctxo
                                   else messages (build q (model a) True (citations a)))\<rparr> #
      map LiveUpdate (update_texts [] fs) @ [SIGINT, ConsolePrint interrupt_notice, LiveStop],
      Inl (SystemExit 0))"
  using assms(2-5)
  by (cases "truthy ctxo")
     (simp_all add: handle_search_def handle_streaming_search_def call_perform_search_def
        update_chunks_interrupted[OF h u] run_defs Let_def)

lemma check_interrupted:
  assumes h: "on_sigint p = handle_interrupt"
  shows "check_and_notify s = Interrupted \<Longrightarrow>
     check_for_updates p s = ([SIGINT, ConsolePrint interrupt_notice], Inl (SystemExit 0))"
    and "check_and_notify s = Returns (Some v) \<Longrightarrow> v \<noteq> [] \<Longrightarrow>
     markup_error p (version_notice v) = None \<Longrightarrow> update_answer s = Interrupted \<Longrightarrow>
     check_for_updates p s =
       ([ConsolePrint (version_notice v), BuiltinInput update_question, SIGINT,
         ConsolePrint interrupt_notice],
        Inl (SystemExit 0))"
    and "check_and_notify s = Returns (Some v) \<Longrightarrow> v \<noteq> [] \<Longrightarrow>
     markup_error p (version_notice v) = None \<Longrightarrow> update_answer s = Returns answer \<Longrightarrow>
     lower (strip answer) \<in> {[], ''y'', ''yes''} \<Longrightarrow> update_package s = Interrupted \<Longrightarrow>
     check_for_updates p s =
       ([ConsolePrint (version_notice v), BuiltinInput update_question, UpdatePackage, SIGINT,
         ConsolePrint interrupt_notice],
        Inl (SystemExit 0))"
  by (auto simp: check_for_updates_def blocking_def console_print_def sigint_exits[OF h]
      run_defs Let_def)

lemma main_passes_exit:
  assumes "parse_arguments g = Some (Returns a)"
  shows "snd (check_for_updates (setup_signal_handler p) s) = Inl (SystemExit 0) \<Longrightarrow>
     main g p s = (fst (check_for_updates (setup_signal_handler p) s), Inl (SystemExit 0))"
    and "check_for_updates (setup_signal_handler p) s = (updating, Inr ()) \<Longrightarrow>
     query_of a = None \<Longrightarrow>
     snd (snd (handle_interactive_mode g (setup_signal_handler p) a None (console_inputs s))) =
       Inl (SystemExit 0) \<Longrightarrow>
     main g p s =
       (updating @
        fst (handle_interactive_mode g (setup_signal_handler p) a None (console_inputs s)),
        Inl (SystemExit 0))"
    and "check_for_updates (setup_signal_handler p) s = (updating, Inr ()) \<Longrightarrow>
     query_of a = Some q' \<Longrightarrow>
     snd (handle_search g (setup_signal_handler p) q' a None) = Inl (SystemExit 0) \<Longrightarrow>
     main g p s =
       (updating @ fst (clear_new_area (setup_signal_handler p)) @
        fst (handle_search g (setup_signal_handler p) q' a None),
        Inl (SystemExit 0))"
proof -
  let ?p = "setup_signal_handler p"
  {
    assume x: "snd (check_for_updates ?p s) = Inl (SystemExit 0)"
    obtain evs r where c: "check_for_updates ?p s = (evs, r)" by (cases "check_for_updates ?p s")
    with x have "r = Inl (SystemExit 0)" by simp
    with c show "main g p s = (fst (check_for_updates ?p s), Inl (SystemExit 0))"
      using assms by (simp add: main_def blocking_def run_defs Let_def del: query_of.simps)
  }
  {
    assume c: "check_for_updates ?p s = (updating, Inr ())" and q: "query_of a = None"
      and x: "snd (snd (handle_interactive_mode g ?p a None (console_inputs s))) =
                Inl (SystemExit 0)"
    obtain evs ctx' r where l: "handle_interactive_mode g ?p a None (console_inputs s) = (evs, ctx', r)"
      by (cases "handle_interactive_mode g ?p a None (console_inputs s)") auto
    with x have "r = Inl (SystemExit 0)" by simp
    with c q l show "main g p s =
        (updating @ fst (handle_interactive_mode g ?p a None (console_inputs s)),
         Inl (SystemExit 0))"
      using assms by (simp add: main_def blocking_def run_defs Let_def del: query_of.simps)
  }
  {
    assume c: "check_for_updates ?p s = (updating, Inr ())" and q: "query_of a = Some q'"
      and x: "snd (handle_search g ?p q' a None) = Inl (SystemExit 0)"
    obtain evs r where l: "handle_search g ?p q' a None = (evs, r)"
      by (cases "handle_search g ?p q' a None")
    with x have "r = Inl (SystemExit 0)" by simp
    with c q l show "main g p s =
        (updating @ fst (clear_new_area ?p) @ fst (handle_search g ?p q' a None),
         Inl (SystemExit 0))"
      using assms
      by (cases "clear_new_area ?p")
         (simp add: main_def blocking_def clear_new_area_def run_defs Let_def
            del: query_of.simps)
  }
qed

text \<open>
  C9, as stated, fails: \<open>main\<close> installs its handler only after \<^verbatim>\<open>parse_arguments\<close> has
  returned. When SIGINT arrives while \<^verbatim>\<open>parse_arguments\<close> runs, Python's own handler
  raises \<^verbatim>\<open>KeyboardInterrupt\<close>, which \<^verbatim>\<open>except Exception\<close> does not catch: \<open>main\<close> is left
  by this exception, with no notice and without \<^verbatim>\<open>sys.exit\<close>.
\<close>

theorem sigint_before_installation:
  "main early_sigint_globals sample_process quiet_script = ([SIGINT], Inl KeyboardInterrupt)"
  by (simp add: main_def early_sigint_globals_def blocking_def sigint_arrives_def
      sample_process_def run_defs)

text \<open>
  C9, as amended. Let \<open>p'\<close> be the process once \<open>main\<close> has installed its handler. When
  SIGINT arrives while the loop waits at the prompt, the notice is printed and the loop
  is left by \<^verbatim>\<open>SystemExit(0)\<close>, with the context as it was and the rest of the input not
  read. When it arrives while a search waits for the next fragment, after the fragments
  \<open>fs\<close>, \<open>handle_search\<close> is left by \<^verbatim>\<open>SystemExit(0)\<close> after the notice and the end of the
  display, in buffered mode and in streaming mode (there, the updates for \<open>fs\<close> having been
  accepted by the display); nothing is returned. A pass of the loop whose search is left
  by \<^verbatim>\<open>SystemExit(0)\<close> ends the loop with it, adds no event, and leaves the context with
  the user Turn of the query and no assistant Turn. When SIGINT arrives in the update
  check (in the check itself, at its question, or in the update), the check is left by
  \<^verbatim>\<open>SystemExit(0)\<close> after the notice. And \<open>main\<close> passes \<^verbatim>\<open>SystemExit(0)\<close> on from the update
  check, from the interactive loop and from the search of a query given on the command
  line, adding no event: the process ends with status 0.
\<close>

theorem sigint_after_installation:
  assumes "p' = setup_signal_handler p"
  shows
  "interactive_loop g p' a ctx (Interrupted # rest) =
     ([ConsoleInput prompt, SIGINT, ConsolePrint interrupt_notice], ctx, Inl (SystemExit 0)) \<and>
   (no_stream_mode g a = ret True \<and> build_api_payload g = Some build \<and>
    perform_search g = Some search \<and>
    search \<lparr>sc_query = q, sc_api_key = api_key a, sc_model = model a, sc_stream = False,
            sc_show_citations = citations a,
            sc_context = (if truthy ctxo then ctxo
                          else messages (build q (model a) False (citations a)))\<rparr> =
      yields fs Interrupt \<longrightarrow>
    handle_search g p' q a ctxo =
      (ConsolePrint ''[cyan]About to clear screen in no_stream mode...[/cyan]'' #
       fst (clear_new_area p') @
       [LiveStart (Spinner ''dots'' ''Searching...'') True,
        SearchRequest \<lparr>sc_query = q, sc_api_key = api_key a, sc_model = model a,
                       sc_stream = False, sc_show_citations = citations a,
                       sc_context = (if truthy ctxo then ctxo
                                     else messages (build q (model a) False (citations a)))\<rparr>,
        SIGINT, ConsolePrint interrupt_notice, LiveStop],
       Inl (SystemExit 0))) \<and>
   (no_stream_mode g a = ret False \<and> build_api_payload g = Some build \<and>
    perform_search g = Some search \<and>
    search \<lparr>sc_query = q, sc_api_key = api_key a, sc_model = model a, sc_stream = True,
            sc_show_citations = citations a,
            sc_context = (if truthy ctxo then ctxo
                          else messages (build q (model a) True (citations a)))\<rparr> =
      yields fs Interrupt \<and>
    list_all (\<lambda>text. markup_error p' text = None) (update_texts [] fs) \<longrightarrow>
    handle_search g p' q a ctxo =
      (LiveStart (Text []) False #
       SearchRequest \<lparr>sc_query = q, sc_api_key = api_key a, sc_model = model a,
                      sc_stream = True, sc_show_citations = citations a,
                      sc_context = (if truthy ctxo then ctxo
                                    else messages (build q (model a) True (citations a)))\<rparr> #
       map LiveUpdate (update_texts [] fs) @ [SIGINT, ConsolePrint interrupt_notice, LiveStop],
       Inl (SystemExit 0))) \<and>
   (\<not> list_all isspace q \<and> lower q \<noteq> ''exit'' \<and>
    snd (handle_search g p' q a (Some (ctx @ [\<lparr>role = ''user'', content = q\<rparr>]))) =
      Inl (SystemExit 0) \<longrightarrow>
    interactive_loop g p' a ctx (Returns q # rest) =
      (ConsoleInput prompt # fst (clear_new_area p') @
       fst (handle_search g p' q a (Some (ctx @ [\<lparr>role = ''user'', content = q\<rparr>]))),
       ctx @ [\<lparr>role = ''user'', content = q\<rparr>], Inl (SystemExit 0))) \<and>
   (check_and_notify s = Interrupted \<longrightarrow>
    check_for_updates p' s = ([SIGINT, ConsolePrint interrupt_notice], Inl (SystemExit 0))) \<and>
   (check_and_notify s = Returns (Some v) \<and> v \<noteq> [] \<and>
    markup_error p' (version_notice v) = None \<and> update_answer s = Interrupted \<longrightarrow>
    check_for_updates p' s =
      ([ConsolePrint (version_notice v), BuiltinInput update_question, SIGINT,
        ConsolePrint interrupt_notice],
       Inl (SystemExit 0))) \<and>
   (check_and_notify s = Returns (Some v) \<and> v \<noteq> [] \<and>
    markup_error p' (version_notice v) = None \<and> update_answer s = Returns answer \<and>
    lower (strip answer) \<in> {[], ''y'', ''yes''} \<and> update_package s = Interrupted \<longrightarrow>
    check_for_updates p' s =
      ([ConsolePrint (version_notice v), BuiltinInput update_question, UpdatePackage, SIGINT,
        ConsolePrint interrupt_notice],
       Inl (SystemExit 0))) \<and>
   (parse_arguments g = Some (Returns a) \<and>
    snd (check_for_updates p' s) = Inl (SystemExit 0) \<longrightarrow>
    main g p s = (fst (check_for_updates p' s), Inl (SystemExit 0))) \<and>
   (parse_arguments g = Some (Returns a) \<and> check_for_updates p' s = (updating, Inr ()) \<and>
    query_of a = None \<and>
    snd (snd (handle_interactive_mode g p' a None (console_inputs s))) = Inl (SystemExit 0) \<longrightarrow>
    main g p s =
      (updating @ fst (handle_interactive_mode g p' a None (console_inputs s)),
       Inl (SystemExit 0))) \<and>
   (parse_arguments g = Some (Returns a) \<and> check_for_updates p' s = (updating, Inr ()) \<and>
    query_of a = Some q' \<and> snd (handle_search g p' q' a None) = Inl (SystemExit 0) \<longrightarrow>
    main g p s =
      (updating @ fst (clear_new_area p') @ fst (handle_search g p' q' a None),
       Inl (SystemExit 0)))"
proof -
  have h: "on_sigint p' = handle_interrupt"
    unfolding assms by (rule handler_installed)
  have 1: "interactive_loop g p' a ctx (Interrupted # rest) =
     ([ConsoleInput prompt, SIGINT, ConsolePrint interrupt_notice], ctx, Inl (SystemExit 0))"
    by (simp add: sigint_exits[OF h])
  have 4: "interactive_loop g p' a ctx (Returns q # rest) =
      (ConsoleInput prompt # fst (clear_new_area p') @
       fst (handle_search g p' q a (Some (ctx @ [\<lparr>role = ''user'', content = q\<rparr>]))),
       ctx @ [\<lparr>role = ''user'', content = q\<rparr>], Inl (SystemExit 0))"
    if "\<not> list_all isspace q \<and> lower q \<noteq> ''exit'' \<and>
        snd (handle_search g p' q a (Some (ctx @ [\<lparr>role = ''user'', content = q\<rparr>]))) =
          Inl (SystemExit 0)"
  proof -
    from that have nb: "\<not> list_all isspace q" and ne: "lower q \<noteq> ''exit''"
      and x: "snd (handle_search g p' q a (Some (ctx @ [\<lparr>role = ''user'', content = q\<rparr>]))) =
                Inl (SystemExit 0)"
      by simp_all
    obtain evs r where
      hs: "handle_search g p' q a (Some (ctx @ [\<lparr>role = ''user'', content = q\<rparr>])) = (evs, r)"
      by (cases "handle_search g p' q a (Some (ctx @ [\<lparr>role = ''user'', content = q\<rparr>]))")
    with x have r: "r = Inl (SystemExit 0)" by simp
    have nx: "\<not> is_Exception (SystemExit 0)" by simp
    show ?thesis
      unfolding loop_abort[OF nb ne hs[unfolded r] nx] hs by simp
  qed
  show ?thesis
    unfolding assms[symmetric]
    apply (intro conjI impI)
    subgoal by (rule 1)
    subgoal
      by (rule search_buffered_interrupted[OF h, where build = build and search = search
            and fs = fs]) simp_all
    subgoal
      by (rule search_streaming_interrupted[OF h, where build = build and search = search
            and fs = fs]) simp_all
    subgoal by (rule 4)
    subgoal by (rule check_interrupted(1)[OF h]) simp
    subgoal by (rule check_interrupted(2)[OF h]) simp_all
    subgoal by (rule check_interrupted(3)[OF h, where answer = answer]) simp_all
    subgoal unfolding assms by (rule main_passes_exit(1)[where a = a]) simp_all
    subgoal unfolding assms by (rule main_passes_exit(2)[where a = a]) simp_all
    subgoal unfolding assms by (rule main_passes_exit(3)[where a = a]) simp_all
    done
qed

theorem sigint_after_installation_witness:
  "interactive_loop (sample_globals hello_world) (setup_signal_handler sample_process)
       sample_args [] (Interrupted # [Returns ''more'']) =
     ([ConsoleInput prompt, SIGINT, ConsolePrint interrupt_notice], [], Inl (SystemExit 0)) \<and>
   handle_search (sample_globals hello_then_sigint) (setup_signal_handler sample_process) ''hi''
       buffered_args (Some [\<lparr>role = ''user'', content = ''hi''\<rparr>]) =
     ([ConsolePrint ''[cyan]About to clear screen in no_stream mode...[/cyan]'',
       ConsolePrint ''[cyan]Clearing screen...[/cyan]'',
       ConsolePrint [CHR 0x0A, CHR 0x0A],
       ConsoleClear,
       LiveStart (Spinner ''dots'' ''Searching...'') True,
       SearchRequest \<lparr>sc_query = ''hi'', sc_api_key = ''key'', sc_model = ''sonar'',
         sc_stream = False, sc_show_citations = False,
         sc_context = Some [\<lparr>role = ''user'', content = ''hi''\<rparr>]\<rparr>,
       SIGINT, ConsolePrint interrupt_notice, LiveStop],
      Inl (SystemExit 0)) \<and>
   handle_search (sample_globals hello_then_sigint) (setup_signal_handler sample_process) ''hi''
       sample_args (Some [\<lparr>role = ''user'', content = ''hi''\<rparr>]) =
     ([LiveStart (Text []) False,
       SearchRequest \<lparr>sc_query = ''hi'', sc_api_key = ''key'', sc_model = ''sonar'',
         sc_stream = True, sc_show_citations = False,
         sc_context = Some [\<lparr>role = ''user'', content = ''hi''\<rparr>]\<rparr>,
       LiveUpdate ''Perplexity: Hello'', SIGINT, ConsolePrint interrupt_notice, LiveStop],
      Inl (SystemExit 0)) \<and>
   snd (interactive_loop (sample_globals hello_then_sigint) (setup_signal_handler sample_process)
          sample_args [] [Returns ''hi'', Returns ''more'']) =
     ([\<lparr>role = ''user'', content = ''hi''\<rparr>], Inl (SystemExit 0)) \<and>
   main (sample_globals hello_world) sample_process interrupted_script =
     ([SIGINT, ConsolePrint interrupt_notice], Inl (SystemExit 0)) \<and>
   snd (main (sample_globals hello_then_sigint) sample_process quiet_script) =
     Inl (SystemExit 0) \<and>
   check_for_updates (setup_signal_handler sample_process) asking_script =
     ([ConsolePrint (version_notice ''2.0''), BuiltinInput update_question, SIGINT,
       ConsolePrint interrupt_notice],
      Inl (SystemExit 0)) \<and>
   check_for_updates (setup_signal_handler sample_process) updating_script =
     ([ConsolePrint (version_notice ''2.0''), BuiltinInput update_question, UpdatePackage,
       SIGINT, ConsolePrint interrupt_notice],
      Inl (SystemExit 0)) \<and>
   snd (main query_globals sample_process quiet_script) = Inl (SystemExit 0)"
proof -
  let ?P = "setup_signal_handler sample_process"
  let ?G = "sample_globals hello_then_sigint"
  let ?u = "\<lparr>role = ''user'', content = ''hi''\<rparr>"
  note t = sigint_after_installation [OF refl, where p = sample_process]
  note q = hi_is_a_query
  have 1: "interactive_loop (sample_globals hello_world) ?P sample_args []
       (Interrupted # [Returns ''more'']) =
     ([ConsoleInput prompt, SIGINT, ConsolePrint interrupt_notice], [], Inl (SystemExit 0))"
    by (rule t [THEN conjunct1])
  have 2: "handle_search ?G ?P ''hi'' buffered_args (Some [?u]) =
     ([ConsolePrint ''[cyan]About to clear screen in no_stream mode...[/cyan]'',
       ConsolePrint ''[cyan]Clearing screen...[/cyan]'',
       ConsolePrint [CHR 0x0A, CHR 0x0A],
       ConsoleClear,
       LiveStart (Spinner ''dots'' ''Searching...'') True,
       SearchRequest \<lparr>sc_query = ''hi'', sc_api_key = ''key'', sc_model = ''sonar'',
         sc_stream = False, sc_show_citations = False, sc_context = Some [?u]\<rparr>,
       SIGINT, ConsolePrint interrupt_notice, LiveStop],
      Inl (SystemExit 0))"
    using t [where g = ?G and a = buffered_args and build = sample_build
        and search = hello_then_sigint and q = "''hi''" and ctxo = "Some [?u]"
        and fs = "[''Hello'']", THEN conjunct2, THEN conjunct1]
    by (simp add: sample_defs no_stream_mode_def clear_new_area_def get_terminal_size_def
        setup_signal_handler_def run_defs numeral_2_eq_2)
  have 3: "handle_search ?G ?P ''hi'' sample_args (Some ([] @ [?u])) =
     ([LiveStart (Text []) False,
       SearchRequest \<lparr>sc_query = ''hi'', sc_api_key = ''key'', sc_model = ''sonar'',
         sc_stream = True, sc_show_citations = False, sc_context = Some [?u]\<rparr>,
       LiveUpdate ''Perplexity: Hello'', SIGINT, ConsolePrint interrupt_notice, LiveStop],
      Inl (SystemExit 0))"
    using t [where g = ?G and a = sample_args and build = sample_build
        and search = hello_then_sigint and q = "''hi''" and ctxo = "Some [?u]"
        and fs = "[''Hello'']", THEN conjunct2, THEN conjunct2, THEN conjunct1]
    by (simp add: sample_defs no_stream_mode_def ret_def plain_text_accepted)
  have x: "snd (handle_search ?G ?P ''hi'' sample_args (Some ([] @ [?u]))) = Inl (SystemExit 0)"
    by (simp only: 3 snd_conv)
  have 4: "interactive_loop ?G ?P sample_args [] (Returns ''hi'' # [Returns ''more'']) =
      (ConsoleInput prompt # fst (clear_new_area ?P) @
       fst (handle_search ?G ?P ''hi'' sample_args (Some ([] @ [?u]))),
       [] @ [?u], Inl (SystemExit 0))"
    by (rule t [where g = ?G and a = sample_args and q = "''hi''" and ctx = "[]"
          and rest = "[Returns ''more'']",
          THEN conjunct2, THEN conjunct2, THEN conjunct2, THEN conjunct1, THEN mp,
          OF conjI [OF q[THEN conjunct1] conjI [OF q[THEN conjunct2] x]]])
  have l4: "snd (interactive_loop ?G ?P sample_args [] [Returns ''hi'', Returns ''more'']) =
      ([?u], Inl (SystemExit 0))"
    by (simp only: 4 snd_conv append_Nil)
  have c: "check_and_notify interrupted_script = Interrupted"
    by (simp add: interrupted_script_def)
  have 5: "check_for_updates ?P interrupted_script =
      ([SIGINT, ConsolePrint interrupt_notice], Inl (SystemExit 0))"
    by (rule t [where s = interrupted_script,
          THEN conjunct2, THEN conjunct2, THEN conjunct2, THEN conjunct2, THEN conjunct1,
          THEN mp, OF c])
  have pa: "\<And>search. parse_arguments (sample_globals search) = Some (Returns sample_args)"
    by (simp add: sample_globals_def)
  have x5: "snd (check_for_updates ?P interrupted_script) = Inl (SystemExit 0)"
    by (simp only: 5 snd_conv)
  have "main (sample_globals hello_world) sample_process interrupted_script =
      (fst (check_for_updates ?P interrupted_script), Inl (SystemExit 0))"
    by (rule t [where g = "sample_globals hello_world" and a = sample_args
          and s = interrupted_script,
          THEN conjunct2, THEN conjunct2, THEN conjunct2, THEN conjunct2, THEN conjunct2,
          THEN conjunct2, THEN conjunct2, THEN conjunct1, THEN mp, OF conjI [OF pa x5]])
  then have 8: "main (sample_globals hello_world) sample_process interrupted_script =
      ([SIGINT, ConsolePrint interrupt_notice], Inl (SystemExit 0))"
    by (simp only: 5 fst_conv)
  have cq: "check_for_updates ?P quiet_script = ([], Inr ())"
    by (simp add: check_for_updates_def blocking_def quiet_script_def ret_def bind_def)
  have qn: "query_of sample_args = None"
    by (simp add: sample_args_def)
  have ci: "console_inputs quiet_script = [Returns ''hi'', Returns ''more'']"
    by (simp add: quiet_script_def)
  have xi: "snd (snd (handle_interactive_mode ?G ?P sample_args None (console_inputs quiet_script))) =
      Inl (SystemExit 0)"
    by (simp only: ci handle_interactive_mode_def option.case 4 prepend_def prod.case snd_conv)
  have "main ?G sample_process quiet_script =
      ([] @ fst (handle_interactive_mode ?G ?P sample_args None (console_inputs quiet_script)),
       Inl (SystemExit 0))"
    by (rule t [where g = ?G and a = sample_args and s = quiet_script and updating = "[]",
          THEN conjunct2, THEN conjunct2, THEN conjunct2, THEN conjunct2, THEN conjunct2,
          THEN conjunct2, THEN conjunct2, THEN conjunct2, THEN conjunct1, THEN mp,
          OF conjI [OF pa conjI [OF cq conjI [OF qn xi]]]])
  then have 9: "snd (main ?G sample_process quiet_script) = Inl (SystemExit 0)"
    by (simp only: snd_conv)
  have s3: "handle_search ?G ?P ''hi'' sample_args (Some [?u]) =
     ([LiveStart (Text []) False,
       SearchRequest \<lparr>sc_query = ''hi'', sc_api_key = ''key'', sc_model = ''sonar'',
         sc_stream = True, sc_show_citations = False, sc_context = Some [?u]\<rparr>,
       LiveUpdate ''Perplexity: Hello'', SIGINT, ConsolePrint interrupt_notice, LiveStop],
      Inl (SystemExit 0))"
    using 3 by (simp only: append_Nil)
  have v: "markup_error ?P (version_notice ''2.0'') = None"
    by (simp add: version_notice_def markup_defs)
  have 6: "check_for_updates ?P asking_script =
     ([ConsolePrint (version_notice ''2.0''), BuiltinInput update_question, SIGINT,
       ConsolePrint interrupt_notice],
      Inl (SystemExit 0))"
    using t [where s = asking_script and v = "''2.0''",
        THEN conjunct2, THEN conjunct2, THEN conjunct2, THEN conjunct2, THEN conjunct2,
        THEN conjunct1] v
    by (simp add: asking_script_def)
  have y: "lower (strip ''Y'') = ''y''"
    by (simp add: strip_def isspace_def lower_def lower_char_def char_eval)
  have 7: "check_for_updates ?P updating_script =
     ([ConsolePrint (version_notice ''2.0''), BuiltinInput update_question, UpdatePackage,
       SIGINT, ConsolePrint interrupt_notice],
      Inl (SystemExit 0))"
    using t [where s = updating_script and v = "''2.0''" and answer = "''Y''",
        THEN conjunct2, THEN conjunct2, THEN conjunct2, THEN conjunct2, THEN conjunct2,
        THEN conjunct2, THEN conjunct1] v y
    by (simp add: updating_script_def)
  have s10: "handle_search query_globals ?P ''hi'' query_args None =
     ([LiveStart (Text []) False,
       SearchRequest \<lparr>sc_query = ''hi'', sc_api_key = ''key'', sc_model = ''sonar'',
         sc_stream = True, sc_show_citations = False, sc_context = Some [?u]\<rparr>,
       LiveUpdate ''Perplexity: Hello'', SIGINT, ConsolePrint interrupt_notice, LiveStop],
      Inl (SystemExit 0))"
    using t [where g = query_globals and a = query_args and build = sample_build
        and search = hello_then_sigint and q = "''hi''" and ctxo = None
        and fs = "[''Hello'']", THEN conjunct2, THEN conjunct2, THEN conjunct1]
    by (simp add: sample_defs query_globals_def query_args_def no_stream_mode_def ret_def
        plain_text_accepted)
  have x10: "snd (handle_search query_globals ?P ''hi'' query_args None) = Inl (SystemExit 0)"
    by (simp only: s10 snd_conv)
  have pq: "parse_arguments query_globals = Some (Returns query_args)"
    by (simp add: query_globals_def)
  have qq: "query_of query_args = Some ''hi''"
    by (simp add: query_args_def)
  have "main query_globals sample_process quiet_script =
      ([] @ fst (clear_new_area ?P) @ fst (handle_search query_globals ?P ''hi'' query_args None),
       Inl (SystemExit 0))"
    by (rule t [where g = query_globals and a = query_args and s = quiet_script
          and updating = "[]" and q' = "''hi''",
          THEN conjunct2, THEN conjunct2, THEN conjunct2, THEN conjunct2, THEN conjunct2,
          THEN conjunct2, THEN conjunct2, THEN conjunct2, THEN conjunct2, THEN mp,
          OF conjI [OF pq conjI [OF cq conjI [OF qq x10]]]])
  then have 10: "snd (main query_globals sample_process quiet_script) = Inl (SystemExit 0)"
    by (simp only: snd_conv)
  show ?thesis
    by (intro conjI 1 2 s3 l4 8 9 6 7 10)
qed

subsection \<open>The block of a Turn in the transcript\<close>

text \<open>
  C10. The Turn with role \<open>user\<close> and content \<open>Hello\<close> is formatted as
  \<^verbatim>\<open>**User**: Hello\<close> followed by two newlines.
\<close>

theorem format_user_hello:
  "format_message_to_markdown \<lparr>role = ''user'', content = ''Hello''\<rparr> =
     ''**User**: Hello\<newline>\<newline>''"
  by (simp add: format_message_to_markdown_def capitalize_def upper_char_def lower_def
      lower_char_def char_eval)

subsection \<open>Writing the log and reading it back\<close>

lemma char_code_iff: "c = d \<longleftrightarrow> (of_char c :: nat) = of_char d"
  by simp

lemma hex_value_hex_digit: "n < 16 \<Longrightarrow> hex_value (hex_digit n) = Some n"
  by (simp add: hex_value_def hex_digit_def Let_def)

lemma hex_digit_code: "n < 16 \<Longrightarrow> (of_char (hex_digit n) :: nat) = (if n < 10 then 48 + n else 87 + n)"
  by (simp add: hex_digit_def)

lemma code_div_16: "(of_char c :: nat) div 16 < 16"
  by (rule less_mult_imp_div_less) simp

lemma code_mod_16: "(of_char c :: nat) mod 16 < 16"
  by simp

lemma hex_digit_not_newline: "n < 16 \<Longrightarrow> hex_digit n \<noteq> CHR 0x0A"
  by (simp add: char_code_iff[of "hex_digit n"] hex_digit_code)

lemma json_escape_no_newline: "CHR 0x0A \<notin> set (json_escape c)"
proof -
  note d = code_div_16[of c] and m = code_mod_16[of c]
  have n: "CHR 0x0A = c \<longleftrightarrow> (of_char c :: nat) = 10"
    by (auto simp: char_code_iff[of "CHR 0x0A" c])
  show ?thesis
    using hex_digit_not_newline[OF d] hex_digit_not_newline[OF m]
    by (auto simp: json_escape_def Let_def n)
qed

lemma json_string_no_newline: "CHR 0x0A \<notin> set (json_string s)"
  using json_escape_no_newline by (simp add: json_string_def)

lemma json_dumps_no_newline: "CHR 0x0A \<notin> set (json_dumps m)"
  using json_string_no_newline by (simp add: json_dumps_def)

lemma scan_escape_short:
  assumes "unescape e = Some c"  and "e \<noteq> CHR ''u''"
  shows "scan (InString s) ([CHR 0x5C, e] @ rest) = scan (InString (s @ [c])) rest"
  using assms by simp

lemma scan_escape_plain:
  assumes "32 \<le> (of_char c :: nat)" and "(of_char c :: nat) \<noteq> 34" and "(of_char c :: nat) \<noteq> 92"
  shows "scan (InString s) ([c] @ rest) = scan (InString (s @ [c])) rest"
proof -
  have "c \<noteq> CHR 0x22" using assms(2) by (auto simp: char_code_iff[of c])
  moreover have "c \<noteq> CHR 0x5C" using assms(3) by (auto simp: char_code_iff[of c])
  ultimately show ?thesis using assms(1) by simp
qed

lemma scan_escape_unicode:
  "scan (InString s)
     ([CHR 0x5C, CHR ''u'', CHR ''0'', CHR ''0'', hex_digit ((of_char c :: nat) div 16),
       hex_digit ((of_char c :: nat) mod 16)] @ rest) =
   scan (InString (s @ [c])) rest"
proof -
  let ?n = "of_char c :: nat"
  have z: "hex_value (CHR ''0'') = Some 0" by (simp add: hex_value_def)
  have d: "hex_value (hex_digit (?n div 16)) = Some (?n div 16)"
    by (rule hex_value_hex_digit[OF code_div_16])
  have m: "hex_value (hex_digit (?n mod 16)) = Some (?n mod 16)"
    by (rule hex_value_hex_digit[OF code_mod_16])
  have v: "16 * (?n div 16) + ?n mod 16 = ?n" by simp
  show ?thesis
    by (simp add: z d m v Let_def)
qed

lemma scan_escape:
  "scan (InString s) (json_escape c @ rest) = scan (InString (s @ [c])) rest"
proof -
  let ?n = "of_char c :: nat"
  consider "?n = 34" | "?n = 92" | "?n = 10" | "?n = 13" | "?n = 9" | "?n = 8" | "?n = 12"
    | "?n \<noteq> 34" "?n \<noteq> 92" "32 \<le> ?n" "?n \<le> 126"
    | "?n \<noteq> 34" "?n \<noteq> 92" "?n \<noteq> 10" "?n \<noteq> 13" "?n \<noteq> 9" "?n \<noteq> 8" "?n \<noteq> 12"
      "\<not> (32 \<le> ?n \<and> ?n \<le> 126)"
    by linarith
  then show ?thesis
  proof cases
    case 1
    have c: "c = CHR 0x22" using 1 by (auto simp: char_code_iff[of c])
    have e: "json_escape c = [CHR 0x5C, CHR 0x22]" using 1 by (simp add: json_escape_def)
    show ?thesis unfolding e unfolding c
      by (rule scan_escape_short) (simp_all add: unescape_def)
  next
    case 2
    have c: "c = CHR 0x5C" using 2 by (auto simp: char_code_iff[of c])
    have e: "json_escape c = [CHR 0x5C, CHR 0x5C]" using 2 by (simp add: json_escape_def)
    show ?thesis unfolding e unfolding c
      by (rule scan_escape_short) (simp_all add: unescape_def)
  next
    case 3
    have c: "c = CHR 0x0A" using 3 by (auto simp: char_code_iff[of c])
    have e: "json_escape c = [CHR 0x5C, CHR ''n'']" using 3 by (simp add: json_escape_def)
    show ?thesis unfolding e unfolding c
      by (rule scan_escape_short) (simp_all add: unescape_def)
  next
    case 4
    have c: "c = CHR 0x0D" using 4 by (auto simp: char_code_iff[of c])
    have e: "json_escape c = [CHR 0x5C, CHR ''r'']" using 4 by (simp add: json_escape_def)
    show ?thesis unfolding e unfolding c
      by (rule scan_escape_short) (simp_all add: unescape_def)
  next
    case 5
    have c: "c = CHR 0x09" using 5 by (auto simp: char_code_iff[of c])
    have e: "json_escape c = [CHR 0x5C, CHR ''t'']" using 5 by (simp add: json_escape_def)
    show ?thesis unfolding e unfolding c
      by (rule scan_escape_short) (simp_all add: unescape_def)
  next
    case 6
    have c: "c = CHR 0x08" using 6 by (auto simp: char_code_iff[of c])
    have e: "json_escape c = [CHR 0x5C, CHR ''b'']" using 6 by (simp add: json_escape_def)
    show ?thesis unfolding e unfolding c
      by (rule scan_escape_short) (simp_all add: unescape_def)
  next
    case 7
    have c: "c = CHR 0x0C" using 7 by (auto simp: char_code_iff[of c])
    have e: "json_escape c = [CHR 0x5C, CHR ''f'']" using 7 by (simp add: json_escape_def)
    show ?thesis unfolding e unfolding c
      by (rule scan_escape_short) (simp_all add: unescape_def)
  next
    case 8
    have e: "json_escape c = [c]" using 8 by (auto simp: json_escape_def)
    show ?thesis unfolding e by (rule scan_escape_plain) (use 8 in simp_all)
  next
    case 9
    have e: "json_escape c = [CHR 0x5C, CHR ''u'', CHR ''0'', CHR ''0'',
        hex_digit (?n div 16), hex_digit (?n mod 16)]"
      using 9 by (simp add: json_escape_def Let_def)
    show ?thesis unfolding e by (rule scan_escape_unicode)
  qed
qed

lemma scan_string:
  "scan (InString s) (concat (map json_escape t) @ CHR 0x22 # rest) =
     map_option (Cons (Str (s @ t))) (scan Between rest)"
proof (induction t arbitrary: s)
  case Nil
  show ?case by simp
next
  case (Cons c t)
  have "scan (InString s) (concat (map json_escape (c # t)) @ CHR 0x22 # rest) =
        scan (InString s) (json_escape c @ (concat (map json_escape t) @ CHR 0x22 # rest))"
    by simp
  also have "\<dots> = scan (InString (s @ [c])) (concat (map json_escape t) @ CHR 0x22 # rest)"
    by (rule scan_escape)
  also have "\<dots> = map_option (Cons (Str ((s @ [c]) @ t))) (scan Between rest)"
    by (rule Cons.IH)
  finally show ?case by simp
qed

lemma scan_json_string:
  "scan Between (json_string t @ rest) = map_option (Cons (Str t)) (scan Between rest)"
  using scan_string[of "[]" t rest] by (simp add: json_string_def)

lemma scan_punctuation:
  "scan Between (CHR ''{'' # rest) = map_option (Cons LBrace) (scan Between rest)"
  "scan Between (CHR ''}'' # rest) = map_option (Cons RBrace) (scan Between rest)"
  "scan Between (CHR '':'' # rest) = map_option (Cons Colon) (scan Between rest)"
  "scan Between (CHR '','' # rest) = map_option (Cons Comma) (scan Between rest)"
  "scan Between (CHR '' '' # rest) = scan Between rest"
  "scan Between (CHR 0x0A # rest) = scan Between rest"
  by (simp_all add: json_whitespace_def)

lemma scan_json_dumps:
  "scan Between (json_dumps m @ [CHR 0x0A]) =
     Some [LBrace, Str ''role'', Colon, Str (role m), Comma,
           Str ''content'', Colon, Str (content m), RBrace]"
proof -
  have "json_dumps m @ [CHR 0x0A] =
      CHR ''{'' # json_string ''role'' @ CHR '':'' # CHR '' '' # json_string (role m) @
      CHR '','' # CHR '' '' # json_string ''content'' @ CHR '':'' # CHR '' '' #
      json_string (content m) @ [CHR ''}'', CHR 0x0A]"
    by (simp add: json_dumps_def)
  then show ?thesis
    by (simp only: scan_punctuation scan_json_string scan.simps(1) option.map list.simps)
qed

lemma json_loads_json_dumps: "json_loads (json_dumps m @ [CHR 0x0A]) = Some m"
proof -
  have k: "''role'' \<noteq> ''content''" by simp
  have "turn_of_dict [(''role'', role m), (''content'', content m)] =
      Some \<lparr>role = role m, content = content m\<rparr>"
    using k by (auto simp: turn_of_dict_def)
  then show ?thesis
    by (simp add: json_loads_def scan_json_dumps)
qed

lemma split_lines_line:
  "CHR 0x0A \<notin> set l \<Longrightarrow>
   split_lines line (l @ CHR 0x0A # rest) = (line @ l @ [CHR 0x0A]) # split_lines [] rest"
  by (induction l arbitrary: line) auto

lemma split_lines_log:
  "split_lines [] (concat (map (\<lambda>m. json_dumps m @ [CHR 0x0A]) ms)) =
     map (\<lambda>m. json_dumps m @ [CHR 0x0A]) ms"
proof (induction ms)
  case Nil
  show ?case by simp
next
  case (Cons m ms)
  have "split_lines [] (json_dumps m @ CHR 0x0A # concat (map (\<lambda>m. json_dumps m @ [CHR 0x0A]) ms)) =
      ([] @ json_dumps m @ [CHR 0x0A]) #
        split_lines [] (concat (map (\<lambda>m. json_dumps m @ [CHR 0x0A]) ms))"
    by (rule split_lines_line[OF json_dumps_no_newline])
  then show ?case using Cons by simp
qed

lemma those_loads:
  "those (map json_loads (map (\<lambda>m. json_dumps m @ [CHR 0x0A]) ms)) = Some ms"
  by (induction ms) (simp_all add: json_loads_json_dumps)

text \<open>
  C8. For every list of Turns, the log written to an empty file reads back, one JSON
  parse per line, as the same list in the same order. Appending a second list to that
  log reads back as the first list followed by the second.
\<close>

theorem log_round_trip:
  "read_log (log_conversation [] ms) = Some ms \<and>
   read_log (log_conversation (log_conversation [] earlier) ms) = Some (earlier @ ms)"
proof -
  have fresh: "\<And>ms. read_log (log_conversation [] ms) = Some ms"
    by (simp only: read_log_def log_conversation_def append_Nil split_lines_log those_loads)
  have "log_conversation (log_conversation [] earlier) ms = log_conversation [] (earlier @ ms)"
    by (simp add: log_conversation_def)
  then show ?thesis using fresh by simp
qed

end
